theory Spec2Isabelle
  imports Complex_Main
begin

section \<open>Data model of \<open>blur.hpp\<close>\<close>

text \<open>
  COM objects are handles; a C++ pointer is a \<open>ptr\<close>, with \<open>None\<close> for \<open>nullptr\<close>.
  The C++ members end in an underscore (\<open>width_\<close>); here they end in \<open>_m\<close>.
  \<open>float\<close> and \<open>double\<close> values (window geometry, blur strength, time stamps, the
  shader arithmetic) are idealised as real numbers: rounding, infinities and NaN are
  outside the model.
\<close>

type_synonym handle = nat
type_synonym ptr = "handle option"

record ImVec2 =
  vec_x :: real
  vec_y :: real

record blur_params =
  device :: ptr
  draw_list :: ptr
  window_pos :: ImVec2
  window_size :: ImVec2
  blur_strength :: real
  corner_radius :: real
  delay_time :: real

record blur_constants =
  texture_size :: "real \<times> real"
  cb_blur_strength :: real
  padding :: real

record blur_renderer =
  device_m :: ptr
  context_m :: ptr
  vertex_shader_m :: ptr
  pixel_shader_horizontal_m :: ptr
  pixel_shader_vertical_m :: ptr
  vertex_buffer_m :: ptr
  constant_buffer_m :: ptr
  input_layout_m :: ptr
  sampler_state_m :: ptr
  blend_state_m :: ptr
  rasterizer_state_m :: ptr
  background_capture_m :: ptr
  background_srv_m :: ptr
  temp_texture_m :: ptr
  temp_rtv_m :: ptr
  temp_srv_m :: ptr
  blur_texture_m :: ptr
  blur_rtv_m :: ptr
  blur_srv_m :: ptr
  width_m :: int
  height_m :: int
  initialized_m :: bool
  background_captured_m :: bool
  blur_processed_m :: bool
  blur_enabled_last_frame_m :: bool
  blur_enable_time_m :: real
  blur_capture_pending_m :: bool

text \<open>The member initialisers of the class: every pointer null, every flag false.\<close>

definition new_renderer :: blur_renderer where
  "new_renderer =
     \<lparr>device_m = None, context_m = None, vertex_shader_m = None,
      pixel_shader_horizontal_m = None, pixel_shader_vertical_m = None,
      vertex_buffer_m = None, constant_buffer_m = None, input_layout_m = None,
      sampler_state_m = None, blend_state_m = None, rasterizer_state_m = None,
      background_capture_m = None, background_srv_m = None, temp_texture_m = None,
      temp_rtv_m = None, temp_srv_m = None, blur_texture_m = None, blur_rtv_m = None,
      blur_srv_m = None, width_m = 0, height_m = 0, initialized_m = False,
      background_captured_m = False, blur_processed_m = False,
      blur_enabled_last_frame_m = False, blur_enable_time_m = 0,
      blur_capture_pending_m = False\<rparr>"

subsection \<open>The Direct3D immediate context and the calls made on it\<close>

record D3D11_VIEWPORT =
  TopLeftX :: real
  TopLeftY :: real
  Width :: real
  Height :: real
  MinDepth :: real
  MaxDepth :: real

text \<open>
  The bindings of the immediate context that \<open>blur.hpp\<close> reads or writes. The
  output merger has several render-target slots and the rasterizer several viewports;
  a call with count 1 writes the first and unbinds the others.
\<close>

record d3d_context =
  om_render_targets :: "ptr list"
  om_depth_stencil :: ptr
  rs_viewports :: "D3D11_VIEWPORT list"
  ps_shader_resource :: ptr
  ps_shader :: ptr
  ps_constant_buffer :: ptr
  ps_sampler :: ptr
  vs_shader :: ptr
  ia_vertex_buffer :: ptr
  ia_input_layout :: ptr
  ia_triangle_strip :: bool
  rs_state :: ptr
  om_blend_state :: ptr

datatype shader_kind = Vertex_shader | Horizontal_blur | Vertical_blur

datatype buffer_kind = Vertex_buffer | Constant_buffer

record D3D11_BOX =
  box_left :: int
  box_top :: int
  box_right :: int
  box_bottom :: int

text \<open>Every call that leaves the renderer, in the order in which it is made.\<close>

datatype api_call =
    GetImmediateContext
  | D3DCompile shader_kind
  | CreateVertexShader
  | CreatePixelShader shader_kind
  | CreateInputLayout
  | CreateBuffer buffer_kind
  | CreateSamplerState
  | CreateBlendState
  | CreateRasterizerState
  | CreateTexture2D int int
  | CreateRenderTargetView
  | CreateShaderResourceView
  | Release handle
  | OMGetRenderTargets
  | RSGetViewports
  | GetResource
  | CopySubresourceRegion ptr handle D3D11_BOX
  | Map
  | Unmap blur_constants
  | IASetVertexBuffers ptr
  | IASetInputLayout ptr
  | IASetPrimitiveTopology
  | VSSetShader ptr
  | PSSetConstantBuffers ptr
  | PSSetSamplers ptr
  | RSSetState ptr
  | OMSetBlendState ptr
  | RSSetViewports D3D11_VIEWPORT
  | OMSetRenderTargets ptr ptr
  | PSSetShader ptr
  | PSSetShaderResources ptr
  | Draw nat nat
  | AddImageRounded ptr ImVec2 ImVec2 real

text \<open>
  What the platform answers during one call of \<open>render\<close>: the result of every
  creation call (\<open>None\<close> is a failed \<open>HRESULT\<close>, \<open>Some h\<close> the created object),
  the resource behind the bound render target, whether \<open>Map\<close> succeeds, the content of
  the uninitialised local \<open>original_viewport\<close>, and \<open>ImGui::GetTime()\<close>.
\<close>

record api_env =
  immediate_context :: handle
  compile_vs :: ptr
  compile_ps_h :: ptr
  compile_ps_v :: ptr
  create_vertex_shader :: ptr
  create_pixel_shader_h :: ptr
  create_pixel_shader_v :: ptr
  create_input_layout :: ptr
  create_vertex_buffer :: ptr
  create_constant_buffer :: ptr
  create_sampler_state :: ptr
  create_blend_state :: ptr
  create_rasterizer_state :: ptr
  create_capture_texture :: ptr
  create_capture_srv :: ptr
  create_temp_texture :: ptr
  create_temp_rtv :: ptr
  create_temp_srv :: ptr
  create_blur_texture :: ptr
  create_blur_rtv :: ptr
  create_blur_srv :: ptr
  get_resource :: ptr
  map_ok :: bool
  stack_viewport :: D3D11_VIEWPORT
  get_time :: real

text \<open>The renderer object, the context it draws on, and the calls made so far.\<close>

record world =
  self :: blur_renderer
  gpu :: d3d_context
  calls :: "api_call list"

definition emit :: "api_call \<Rightarrow> world \<Rightarrow> world" where
  "emit c w = w\<lparr>calls := calls w @ [c]\<rparr>"

text \<open>\<open>if (p) p->Release();\<close>\<close>

definition release :: "ptr \<Rightarrow> world \<Rightarrow> world" where
  "release p w = (case p of None \<Rightarrow> w | Some h \<Rightarrow> emit (Release h) w)"

text \<open>\<open>static_cast<int>\<close> of a float: truncation towards zero.\<close>

definition trunc_int :: "real \<Rightarrow> int" where
  "trunc_int v = (if 0 \<le> v then \<lfloor>v\<rfloor> else \<lceil>v\<rceil>)"

subsection \<open>Context calls\<close>

definition om_get_render_targets :: "world \<Rightarrow> ptr \<times> ptr \<times> world" where
  "om_get_render_targets w =
     ((case om_render_targets (gpu w) of [] \<Rightarrow> None | p # _ \<Rightarrow> p),
      om_depth_stencil (gpu w),
      emit OMGetRenderTargets w)"

definition om_set_render_targets :: "ptr \<Rightarrow> ptr \<Rightarrow> world \<Rightarrow> world" where
  "om_set_render_targets rtv dsv w =
     emit (OMSetRenderTargets rtv dsv)
       (w\<lparr>gpu := (gpu w)\<lparr>om_render_targets :=
                              rtv # replicate (length (om_render_targets (gpu w)) - 1) None,
                            om_depth_stencil := dsv\<rparr>\<rparr>)"

definition rs_get_viewports :: "D3D11_VIEWPORT \<Rightarrow> world \<Rightarrow> D3D11_VIEWPORT \<times> world" where
  "rs_get_viewports uninitialised w =
     ((case rs_viewports (gpu w) of [] \<Rightarrow> uninitialised | v # _ \<Rightarrow> v),
      emit RSGetViewports w)"

definition rs_set_viewports :: "D3D11_VIEWPORT \<Rightarrow> world \<Rightarrow> world" where
  "rs_set_viewports v w =
     emit (RSSetViewports v) (w\<lparr>gpu := (gpu w)\<lparr>rs_viewports := [v]\<rparr>\<rparr>)"

definition ps_set_shader_resources :: "ptr \<Rightarrow> world \<Rightarrow> world" where
  "ps_set_shader_resources srv w =
     emit (PSSetShaderResources srv) (w\<lparr>gpu := (gpu w)\<lparr>ps_shader_resource := srv\<rparr>\<rparr>)"

definition ps_set_shader :: "ptr \<Rightarrow> world \<Rightarrow> world" where
  "ps_set_shader p w = emit (PSSetShader p) (w\<lparr>gpu := (gpu w)\<lparr>ps_shader := p\<rparr>\<rparr>)"

definition draw :: "world \<Rightarrow> world" where
  "draw w = emit (Draw 4 0) w"

text \<open>
  The fixed part of the pipeline setup in \<open>process_blur\<close>: vertex buffer, input layout,
  topology, vertex shader, constant buffer, sampler, rasterizer and blend state.
\<close>

definition bind_pipeline :: "world \<Rightarrow> world" where
  "bind_pipeline w =
     (let r = self w;
          w = emit (IASetVertexBuffers (vertex_buffer_m r)) w;
          w = emit (IASetInputLayout (input_layout_m r)) w;
          w = emit IASetPrimitiveTopology w;
          w = emit (VSSetShader (vertex_shader_m r)) w;
          w = emit (PSSetConstantBuffers (constant_buffer_m r)) w;
          w = emit (PSSetSamplers (sampler_state_m r)) w;
          w = emit (RSSetState (rasterizer_state_m r)) w;
          w = emit (OMSetBlendState (blend_state_m r)) w
      in w\<lparr>gpu := (gpu w)\<lparr>ia_vertex_buffer := vertex_buffer_m r,
                              ia_input_layout := input_layout_m r,
                              ia_triangle_strip := True,
                              vs_shader := vertex_shader_m r,
                              ps_constant_buffer := constant_buffer_m r,
                              ps_sampler := sampler_state_m r,
                              rs_state := rasterizer_state_m r,
                              om_blend_state := blend_state_m r\<rparr>\<rparr>)"

section \<open>The member functions of \<open>blur_renderer\<close>\<close>

definition reset_state :: "world \<Rightarrow> world" where
  "reset_state w =
     w\<lparr>self := (self w)\<lparr>background_captured_m := False,
                          blur_processed_m := False,
                          blur_capture_pending_m := False\<rparr>\<rparr>"

definition cleanup_render_targets :: "world \<Rightarrow> world" where
  "cleanup_render_targets w =
     (let r = self w;
          w = release (background_capture_m r) w;
          w = release (background_srv_m r) w;
          w = release (temp_texture_m r) w;
          w = release (temp_rtv_m r) w;
          w = release (temp_srv_m r) w;
          w = release (blur_texture_m r) w;
          w = release (blur_rtv_m r) w;
          w = release (blur_srv_m r) w
      in w\<lparr>self := (self w)\<lparr>background_capture_m := None, background_srv_m := None,
                               temp_texture_m := None, temp_rtv_m := None,
                               temp_srv_m := None, blur_texture_m := None,
                               blur_rtv_m := None, blur_srv_m := None\<rparr>\<rparr>)"

definition cleanup_all :: "world \<Rightarrow> world" where
  "cleanup_all w =
     (let w = cleanup_render_targets w;
          r = self w;
          w = release (vertex_shader_m r) w;
          w = release (pixel_shader_horizontal_m r) w;
          w = release (pixel_shader_vertical_m r) w;
          w = release (vertex_buffer_m r) w;
          w = release (constant_buffer_m r) w;
          w = release (input_layout_m r) w;
          w = release (sampler_state_m r) w;
          w = release (blend_state_m r) w;
          w = release (rasterizer_state_m r) w;
          w = release (context_m r) w
      in w\<lparr>self := (self w)\<lparr>vertex_shader_m := None, pixel_shader_horizontal_m := None,
                               pixel_shader_vertical_m := None, vertex_buffer_m := None,
                               constant_buffer_m := None, input_layout_m := None,
                               sampler_state_m := None, blend_state_m := None,
                               rasterizer_state_m := None, context_m := None,
                               initialized_m := False, device_m := None\<rparr>\<rparr>)"

text \<open>
  \<open>initialize_shaders\<close>: the three compilations always run; a missing blob releases the
  others and fails. The \<open>&&\<close> chain of creation calls stops at the first failure, the
  input layout is created only after all three shaders, and the blobs are released on
  both ways out. A creation call stores its result in the member; the members are null
  when the function is called, since \<open>cleanup_all\<close> has just run.
\<close>

definition initialize_shaders :: "api_env \<Rightarrow> world \<Rightarrow> bool \<times> world" where
  "initialize_shaders env w =
     (let w = emit (D3DCompile Vertex_shader) w;
          vs_blob = compile_vs env;
          w = emit (D3DCompile Horizontal_blur) w;
          ps_h_blob = compile_ps_h env;
          w = emit (D3DCompile Vertical_blur) w;
          ps_v_blob = compile_ps_v env
      in if vs_blob = None \<or> ps_h_blob = None \<or> ps_v_blob = None
         then (False, release ps_v_blob (release ps_h_blob (release vs_blob w)))
         else
           let w = emit CreateVertexShader w;
               w = w\<lparr>self := (self w)\<lparr>vertex_shader_m := create_vertex_shader env\<rparr>\<rparr>;
               success = (create_vertex_shader env \<noteq> None);
               (success, w) =
                 (if success
                  then (create_pixel_shader_h env \<noteq> None,
                        (emit (CreatePixelShader Horizontal_blur) w)
                          \<lparr>self := (self w)\<lparr>pixel_shader_horizontal_m :=
                                                create_pixel_shader_h env\<rparr>\<rparr>)
                  else (False, w));
               (success, w) =
                 (if success
                  then (create_pixel_shader_v env \<noteq> None,
                        (emit (CreatePixelShader Vertical_blur) w)
                          \<lparr>self := (self w)\<lparr>pixel_shader_vertical_m :=
                                                create_pixel_shader_v env\<rparr>\<rparr>)
                  else (False, w));
               (success, w) =
                 (if success
                  then (create_input_layout env \<noteq> None,
                        (emit CreateInputLayout w)
                          \<lparr>self := (self w)\<lparr>input_layout_m := create_input_layout env\<rparr>\<rparr>)
                  else (False, w));
               w = release vs_blob w;
               w = release ps_h_blob w;
               w = release ps_v_blob w
           in (success, w))"

text \<open>\<open>initialize_render_states\<close>: five creation calls, returning at the first failure.\<close>

definition initialize_render_states :: "api_env \<Rightarrow> world \<Rightarrow> bool \<times> world" where
  "initialize_render_states env w =
     (let w = (emit (CreateBuffer Vertex_buffer) w)
                \<lparr>self := (self w)\<lparr>vertex_buffer_m := create_vertex_buffer env\<rparr>\<rparr>
      in if create_vertex_buffer env = None then (False, w) else
      let w = (emit (CreateBuffer Constant_buffer) w)
                \<lparr>self := (self w)\<lparr>constant_buffer_m := create_constant_buffer env\<rparr>\<rparr>
      in if create_constant_buffer env = None then (False, w) else
      let w = (emit CreateSamplerState w)
                \<lparr>self := (self w)\<lparr>sampler_state_m := create_sampler_state env\<rparr>\<rparr>
      in if create_sampler_state env = None then (False, w) else
      let w = (emit CreateBlendState w)
                \<lparr>self := (self w)\<lparr>blend_state_m := create_blend_state env\<rparr>\<rparr>
      in if create_blend_state env = None then (False, w) else
      let w = (emit CreateRasterizerState w)
                \<lparr>self := (self w)\<lparr>rasterizer_state_m := create_rasterizer_state env\<rparr>\<rparr>
      in (create_rasterizer_state env \<noteq> None, w))"

text \<open>
  The lambda \<open>create_texture\<close> of \<open>ensure_render_targets\<close>: the texture, then the
  render-target view and the shader-resource view when asked for (\<open>want_rtv\<close>,
  \<open>want_srv\<close>: the pointer argument is not null). It returns at the first failure
  and leaves what it created before. The result is the success flag, the three
  pointers written, and the calls made.
\<close>

definition create_texture ::
  "int \<Rightarrow> int \<Rightarrow> ptr \<Rightarrow> bool \<Rightarrow> ptr \<Rightarrow> bool \<Rightarrow> ptr \<Rightarrow> bool \<times> ptr \<times> ptr \<times> ptr \<times> api_call list" where
  "create_texture w h tex_result want_rtv rtv_result want_srv srv_result =
     (if tex_result = None then (False, None, None, None, [CreateTexture2D w h])
      else if want_rtv \<and> rtv_result = None
      then (False, tex_result, None, None, [CreateTexture2D w h, CreateRenderTargetView])
      else if want_srv \<and> srv_result = None
      then (False, tex_result, (if want_rtv then rtv_result else None), None,
            [CreateTexture2D w h] @ (if want_rtv then [CreateRenderTargetView] else [])
              @ [CreateShaderResourceView])
      else (True, tex_result, (if want_rtv then rtv_result else None),
            (if want_srv then srv_result else None),
            [CreateTexture2D w h] @ (if want_rtv then [CreateRenderTargetView] else [])
              @ (if want_srv then [CreateShaderResourceView] else [])))"

definition ensure_render_targets :: "api_env \<Rightarrow> int \<Rightarrow> int \<Rightarrow> world \<Rightarrow> bool \<times> world" where
  "ensure_render_targets env width height w =
     (if background_capture_m (self w) \<noteq> None \<and> width_m (self w) = width
           \<and> height_m (self w) = height
      then (True, w)
      else
        let w = cleanup_render_targets w;
            (ok, tex, rtv, srv, cs) =
               create_texture width height (create_capture_texture env) False None
                 True (create_capture_srv env);
            w = w\<lparr>self := (self w)\<lparr>background_capture_m := tex, background_srv_m := srv\<rparr>,
                  calls := calls w @ cs\<rparr>
        in if \<not> ok then (False, w) else
        let (ok, tex, rtv, srv, cs) =
               create_texture width height (create_temp_texture env) True (create_temp_rtv env)
                 True (create_temp_srv env);
            w = w\<lparr>self := (self w)\<lparr>temp_texture_m := tex, temp_rtv_m := rtv,
                                      temp_srv_m := srv\<rparr>,
                  calls := calls w @ cs\<rparr>
        in if \<not> ok then (False, w) else
        let (ok, tex, rtv, srv, cs) =
               create_texture width height (create_blur_texture env) True (create_blur_rtv env)
                 True (create_blur_srv env);
            w = w\<lparr>self := (self w)\<lparr>blur_texture_m := tex, blur_rtv_m := rtv,
                                      blur_srv_m := srv\<rparr>,
                  calls := calls w @ cs\<rparr>
        in (ok, w))"

text \<open>
  \<open>capture_background\<close>: without a bound render target it fails at once (the
  depth-stencil reference is not released on that way out). The source box is the window
  rectangle, its left and top clamped at zero.
\<close>

definition capture_background :: "api_env \<Rightarrow> ImVec2 \<Rightarrow> ImVec2 \<Rightarrow> world \<Rightarrow> bool \<times> world" where
  "capture_background env pos sz w =
     (let (current_rtv, current_dsv, w) = om_get_render_targets w
      in if current_rtv = None then (False, w) else
      let w = emit GetResource w;
          back_buffer = get_resource env;
          (success, w) =
            (case back_buffer of
               None \<Rightarrow> (False, w)
             | Some bb \<Rightarrow>
                 let src_box = \<lparr>box_left = trunc_int (max 0 (vec_x pos)),
                                box_top = trunc_int (max 0 (vec_y pos)),
                                box_right = trunc_int (vec_x pos + vec_x sz),
                                box_bottom = trunc_int (vec_y pos + vec_y sz)\<rparr>;
                     w = emit (CopySubresourceRegion (background_capture_m (self w)) bb src_box) w;
                     w = w\<lparr>self := (self w)\<lparr>background_captured_m := True\<rparr>\<rparr>;
                     w = emit (Release bb) w
                 in (True, w));
          w = release current_rtv w;
          w = release current_dsv w
      in (success, w))"

definition process_blur :: "api_env \<Rightarrow> real \<Rightarrow> world \<Rightarrow> bool \<times> world" where
  "process_blur env strength w =
     (if \<not> background_captured_m (self w) then (False, w) else
      let (original_rtv, original_dsv, w) = om_get_render_targets w;
          (original_viewport, w) = rs_get_viewports (stack_viewport env) w;
          w = emit Map w;
          w = (if map_ok env
               then emit (Unmap \<lparr>texture_size = (of_int (width_m (self w)),
                                                   of_int (height_m (self w))),
                                  cb_blur_strength = strength, padding = 0\<rparr>) w
               else w);
          w = bind_pipeline w;
          viewport = \<lparr>TopLeftX = 0, TopLeftY = 0, Width = of_int (width_m (self w)),
                      Height = of_int (height_m (self w)), MinDepth = 0, MaxDepth = 1\<rparr>;
          w = rs_set_viewports viewport w;
          w = om_set_render_targets (temp_rtv_m (self w)) None w;
          w = ps_set_shader (pixel_shader_horizontal_m (self w)) w;
          w = ps_set_shader_resources (background_srv_m (self w)) w;
          w = draw w;
          w = om_set_render_targets (blur_rtv_m (self w)) None w;
          w = ps_set_shader (pixel_shader_vertical_m (self w)) w;
          w = ps_set_shader_resources (temp_srv_m (self w)) w;
          w = draw w;
          w = om_set_render_targets original_rtv original_dsv w;
          w = rs_set_viewports original_viewport w;
          w = ps_set_shader_resources None w;
          w = release original_rtv w;
          w = release original_dsv w;
          w = w\<lparr>self := (self w)\<lparr>blur_processed_m := True\<rparr>\<rparr>
      in (True, w))"

text \<open>
  The first block of \<open>render\<close> after the handle check: when the renderer is not
  initialised or the device differs, everything held is released and the pipeline is
  built anew; \<open>initialized_\<close> is set only when both initialisation functions succeed.
\<close>

definition ensure_pipeline :: "api_env \<Rightarrow> blur_params \<Rightarrow> world \<Rightarrow> bool \<times> world" where
  "ensure_pipeline env params w =
     (if \<not> initialized_m (self w) \<or> device_m (self w) \<noteq> device params
      then
        let w = cleanup_all w;
            w = w\<lparr>self := (self w)\<lparr>device_m := device params\<rparr>\<rparr>;
            w = (emit GetImmediateContext w)
                  \<lparr>self := (self w)\<lparr>context_m := Some (immediate_context env)\<rparr>\<rparr>;
            (ok, w) = initialize_shaders env w
        in if \<not> ok then (False, w) else
        let (ok, w) = initialize_render_states env w
        in if \<not> ok then (False, w)
           else (True, w\<lparr>self := (self w)\<lparr>initialized_m := True\<rparr>\<rparr>)
      else (True, w))"

text \<open>
  The rest of \<open>render\<close>, from the size check on: resize detection, the activation
  edges, the delayed capture, and the composite draw.
\<close>

definition render_frame :: "api_env \<Rightarrow> blur_params \<Rightarrow> bool \<Rightarrow> world \<Rightarrow> bool \<times> world" where
  "render_frame env params should_blur w =
     (let window_width = trunc_int (vec_x (window_size params));
          window_height = trunc_int (vec_y (window_size params))
      in if window_width \<le> 0 \<or> window_height \<le> 0 then (False, w) else
      let current_time = get_time env;
          w = (if width_m (self w) \<noteq> window_width \<or> height_m (self w) \<noteq> window_height
               then let w = cleanup_render_targets w;
                        w = reset_state w
                    in w\<lparr>self := (self w)\<lparr>width_m := window_width,
                                             height_m := window_height\<rparr>\<rparr>
               else w);
          w = (if should_blur \<and> \<not> blur_enabled_last_frame_m (self w)
               then let w = reset_state w
                    in w\<lparr>self := (self w)\<lparr>blur_capture_pending_m := True,
                                             blur_enable_time_m := current_time\<rparr>\<rparr>
               else if \<not> should_blur \<and> blur_enabled_last_frame_m (self w)
               then reset_state w
               else w);
          w = (if should_blur \<and> blur_capture_pending_m (self w) \<and> \<not> blur_processed_m (self w)
               then
                 if current_time - blur_enable_time_m (self w) \<ge> delay_time params
                 then
                   let w = w\<lparr>self := (self w)\<lparr>blur_capture_pending_m := False\<rparr>\<rparr>;
                       (ok, w) = ensure_render_targets env window_width window_height w
                   in if ok
                      then let (ok, w) = capture_background env (window_pos params)
                                            (window_size params) w
                           in if ok then snd (process_blur env (blur_strength params) w)
                              else w
                      else w
                 else w
               else w);
          w = w\<lparr>self := (self w)\<lparr>blur_enabled_last_frame_m := should_blur\<rparr>\<rparr>;
          w = (if should_blur \<and> blur_processed_m (self w) \<and> blur_srv_m (self w) \<noteq> None
               then emit (AddImageRounded (blur_srv_m (self w)) (window_pos params)
                            \<lparr>vec_x = vec_x (window_pos params) + vec_x (window_size params),
                             vec_y = vec_y (window_pos params) + vec_y (window_size params)\<rparr>
                            (corner_radius params)) w
               else w)
      in (True, w))"

definition render :: "api_env \<Rightarrow> blur_params \<Rightarrow> bool \<Rightarrow> world \<Rightarrow> bool \<times> world" where
  "render env params should_blur w =
     (if device params = None \<or> draw_list params = None then (False, w) else
      let (ok, w) = ensure_pipeline env params w
      in if \<not> ok then (False, w)
         else render_frame env params should_blur w)"


section \<open>The blur shaders\<close>
















section \<open>Sequences of frames\<close>

text \<open>
  One frame is one call of \<open>render\<close>: the request, the caller's intent, what the
  platform answers during the call, and the bindings of the context as the host left
  them. The renderer object persists from call to call; the call log starts empty at
  each call, so that \<open>calls\<close> of the result are the calls of that frame.
\<close>

record frame =
  frame_env :: api_env
  frame_params :: blur_params
  frame_should_blur :: bool
  frame_host :: d3d_context

definition call_render :: "frame \<Rightarrow> blur_renderer \<Rightarrow> bool \<times> world" where
  "call_render f r =
     render (frame_env f) (frame_params f) (frame_should_blur f)
       \<lparr>self = r, gpu = frame_host f, calls = []\<rparr>"

fun run :: "blur_renderer \<Rightarrow> frame list \<Rightarrow> blur_renderer" where
  "run r [] = r"
| "run r (f # fs) = run (self (snd (call_render f r))) fs"

text \<open>The result of call number \<open>n\<close> of a sequence that starts in renderer state \<open>r\<close>.\<close>

definition outcome :: "blur_renderer \<Rightarrow> frame list \<Rightarrow> nat \<Rightarrow> bool \<times> world" where
  "outcome r fs n = call_render (fs ! n) (run r (take n fs))"

fun is_draw :: "api_call \<Rightarrow> bool" where
  "is_draw (AddImageRounded srv p_min p_max rounding) = True"
| "is_draw c = False"

fun is_texture_alloc :: "api_call \<Rightarrow> bool" where
  "is_texture_alloc (CreateTexture2D w h) = True"
| "is_texture_alloc CreateRenderTargetView = True"
| "is_texture_alloc CreateShaderResourceView = True"
| "is_texture_alloc c = False"

fun is_capture :: "api_call \<Rightarrow> bool" where
  "is_capture (CopySubresourceRegion dst src box) = True"
| "is_capture c = False"

definition completed :: "blur_renderer \<Rightarrow> frame list \<Rightarrow> nat \<Rightarrow> bool" where
  "completed r fs n = fst (outcome r fs n)"

definition drew :: "blur_renderer \<Rightarrow> frame list \<Rightarrow> nat \<Rightarrow> bool" where
  "drew r fs n = list_ex is_draw (calls (snd (outcome r fs n)))"

section \<open>Auxiliary notions for the proofs\<close>

text \<open>The calls that releasing a pointer adds to the log: one if it is set, none if it is null.\<close>

definition release_calls :: "ptr \<Rightarrow> api_call list" where
  "release_calls p = (case p of None \<Rightarrow> [] | Some h \<Rightarrow> [Release h])"

text \<open>Two renderer states that differ at most in the eight texture and view pointers.\<close>

definition same_but_textures :: "blur_renderer \<Rightarrow> blur_renderer \<Rightarrow> bool" where
  "same_but_textures r r' \<longleftrightarrow>
     r' = r\<lparr>background_capture_m := background_capture_m r',
            background_srv_m := background_srv_m r',
            temp_texture_m := temp_texture_m r', temp_rtv_m := temp_rtv_m r',
            temp_srv_m := temp_srv_m r', blur_texture_m := blur_texture_m r',
            blur_rtv_m := blur_rtv_m r', blur_srv_m := blur_srv_m r'\<rparr>"

text \<open>
  The four stages of \<open>render_frame\<close> after the size check (source lines 153 to 158,
  160 to 167, 169 to 179 and 181 to 193), one definition each; \<open>render_frame\<close> is
  their composition (lemma \<open>render_frame_steps\<close>).
\<close>

definition resize_step :: "int \<Rightarrow> int \<Rightarrow> world \<Rightarrow> world" where
  "resize_step window_width window_height w =
     (if width_m (self w) \<noteq> window_width \<or> height_m (self w) \<noteq> window_height
      then let w = cleanup_render_targets w;
               w = reset_state w
           in w\<lparr>self := (self w)\<lparr>width_m := window_width, height_m := window_height\<rparr>\<rparr>
      else w)"

definition edge_step :: "bool \<Rightarrow> real \<Rightarrow> world \<Rightarrow> world" where
  "edge_step should_blur current_time w =
     (if should_blur \<and> \<not> blur_enabled_last_frame_m (self w)
      then let w = reset_state w
           in w\<lparr>self := (self w)\<lparr>blur_capture_pending_m := True,
                                    blur_enable_time_m := current_time\<rparr>\<rparr>
      else if \<not> should_blur \<and> blur_enabled_last_frame_m (self w)
      then reset_state w
      else w)"

definition capture_step ::
  "api_env \<Rightarrow> blur_params \<Rightarrow> bool \<Rightarrow> int \<Rightarrow> int \<Rightarrow> world \<Rightarrow> world" where
  "capture_step env params should_blur window_width window_height w =
     (if should_blur \<and> blur_capture_pending_m (self w) \<and> \<not> blur_processed_m (self w)
      then
        if get_time env - blur_enable_time_m (self w) \<ge> delay_time params
        then
          let w = w\<lparr>self := (self w)\<lparr>blur_capture_pending_m := False\<rparr>\<rparr>;
              (ok, w) = ensure_render_targets env window_width window_height w
          in if ok
             then let (ok, w) = capture_background env (window_pos params)
                                   (window_size params) w
                  in if ok then snd (process_blur env (blur_strength params) w)
                     else w
             else w
        else w
      else w)"

definition draw_step :: "blur_params \<Rightarrow> bool \<Rightarrow> world \<Rightarrow> world" where
  "draw_step params should_blur w =
     (let w = w\<lparr>self := (self w)\<lparr>blur_enabled_last_frame_m := should_blur\<rparr>\<rparr>
      in if should_blur \<and> blur_processed_m (self w) \<and> blur_srv_m (self w) \<noteq> None
         then emit (AddImageRounded (blur_srv_m (self w)) (window_pos params)
                      \<lparr>vec_x = vec_x (window_pos params) + vec_x (window_size params),
                       vec_y = vec_y (window_pos params) + vec_y (window_size params)\<rparr>
                      (corner_radius params)) w
         else w)"

section \<open>Conditions on the platform, the request and the host\<close>

text \<open>
  Every pipeline creation call of the frame succeeds; every texture creation call succeeds.
\<close>

definition pipeline_succeeds :: "api_env \<Rightarrow> bool" where
  "pipeline_succeeds env \<longleftrightarrow>
     compile_vs env \<noteq> None \<and> compile_ps_h env \<noteq> None \<and> compile_ps_v env \<noteq> None
     \<and> create_vertex_shader env \<noteq> None \<and> create_pixel_shader_h env \<noteq> None
     \<and> create_pixel_shader_v env \<noteq> None \<and> create_input_layout env \<noteq> None
     \<and> create_vertex_buffer env \<noteq> None \<and> create_constant_buffer env \<noteq> None
     \<and> create_sampler_state env \<noteq> None \<and> create_blend_state env \<noteq> None
     \<and> create_rasterizer_state env \<noteq> None"

definition textures_succeed :: "api_env \<Rightarrow> bool" where
  "textures_succeed env \<longleftrightarrow>
     create_capture_texture env \<noteq> None \<and> create_capture_srv env \<noteq> None
     \<and> create_temp_texture env \<noteq> None \<and> create_temp_rtv env \<noteq> None
     \<and> create_temp_srv env \<noteq> None \<and> create_blur_texture env \<noteq> None
     \<and> create_blur_rtv env \<noteq> None \<and> create_blur_srv env \<noteq> None"

text \<open>
  A request that passes the handle check and the size check of \<open>render\<close>.
\<close>

definition well_formed_request :: "blur_params \<Rightarrow> bool" where
  "well_formed_request p \<longleftrightarrow>
     device p \<noteq> None \<and> draw_list p \<noteq> None
     \<and> 0 < trunc_int (vec_x (window_size p)) \<and> 0 < trunc_int (vec_y (window_size p))"

text \<open>The host has a render target bound in the first slot of the output merger.\<close>

definition render_target_bound :: "d3d_context \<Rightarrow> bool" where
  "render_target_bound c \<longleftrightarrow> (case om_render_targets c of [] \<Rightarrow> False | p # _ \<Rightarrow> p \<noteq> None)"

section \<open>Conditions on the renderer\<close>

text \<open>The calls of pipeline initialisation and of releasing what is held.\<close>

fun is_pipeline_call :: "api_call \<Rightarrow> bool" where
  "is_pipeline_call GetImmediateContext = True"
| "is_pipeline_call (D3DCompile k) = True"
| "is_pipeline_call CreateVertexShader = True"
| "is_pipeline_call (CreatePixelShader k) = True"
| "is_pipeline_call CreateInputLayout = True"
| "is_pipeline_call (CreateBuffer k) = True"
| "is_pipeline_call CreateSamplerState = True"
| "is_pipeline_call CreateBlendState = True"
| "is_pipeline_call CreateRasterizerState = True"
| "is_pipeline_call (Release h) = True"
| "is_pipeline_call c = False"



text \<open>
  The pipeline objects a renderer holds, in the order in which \<open>cleanup_all\<close> releases them.
\<close>

definition held_pipeline :: "blur_renderer \<Rightarrow> ptr list" where
  "held_pipeline r =
     [vertex_shader_m r, pixel_shader_horizontal_m r, pixel_shader_vertical_m r,
      vertex_buffer_m r, constant_buffer_m r, input_layout_m r, sampler_state_m r,
      blend_state_m r, rasterizer_state_m r]"

text \<open>
  Two renderer states with the same pipeline objects, device and \<open>initialized_\<close> flag.
\<close>

definition same_pipeline :: "blur_renderer \<Rightarrow> blur_renderer \<Rightarrow> bool" where
  "same_pipeline r r' \<longleftrightarrow>
     held_pipeline r' = held_pipeline r \<and> initialized_m r' = initialized_m r
     \<and> device_m r' = device_m r \<and> context_m r' = context_m r"

text \<open>
  The renderer believes the intent was set on the last frame, no capture is pending and
  nothing has been processed: the state after a failed attempt, and after a resize.
\<close>

definition stalled :: "blur_renderer \<Rightarrow> bool" where
  "stalled r \<longleftrightarrow>
     blur_enabled_last_frame_m r \<and> \<not> blur_capture_pending_m r \<and> \<not> blur_processed_m r"

section \<open>Conditions on a sequence of calls\<close>

text \<open>The time stamp and the delay of call number \<open>i\<close>.\<close>

definition time_at :: "frame list \<Rightarrow> nat \<Rightarrow> real" where
  "time_at fs i = get_time (frame_env (fs ! i))"

definition delay_at :: "frame list \<Rightarrow> nat \<Rightarrow> real" where
  "delay_at fs i = delay_time (frame_params (fs ! i))"





section \<open>The kernel weight of the shaders\<close>


section \<open>A nominal host and the renderer states it leads to\<close>

text \<open>
  A platform on which every call succeeds, at time \<open>t\<close>; a request for a window of the
  given size; a host context with the given render target bound; a frame of the three.
\<close>

definition nominal_env :: "real \<Rightarrow> api_env" where
  "nominal_env t =
     \<lparr>immediate_context = 1, compile_vs = Some 2, compile_ps_h = Some 3, compile_ps_v = Some 4,
      create_vertex_shader = Some 5, create_pixel_shader_h = Some 6,
      create_pixel_shader_v = Some 7, create_input_layout = Some 8,
      create_vertex_buffer = Some 9, create_constant_buffer = Some 10,
      create_sampler_state = Some 11, create_blend_state = Some 12,
      create_rasterizer_state = Some 13, create_capture_texture = Some 14,
      create_capture_srv = Some 15, create_temp_texture = Some 16, create_temp_rtv = Some 17,
      create_temp_srv = Some 18, create_blur_texture = Some 19, create_blur_rtv = Some 20,
      create_blur_srv = Some 21, get_resource = Some 22, map_ok = True,
      stack_viewport = \<lparr>TopLeftX = 0, TopLeftY = 0, Width = 0, Height = 0, MinDepth = 0,
                         MaxDepth = 0\<rparr>,
      get_time = t\<rparr>"

definition nominal_params :: "real \<Rightarrow> real \<Rightarrow> blur_params" where
  "nominal_params w h =
     \<lparr>device = Some 100, draw_list = Some 101,
      window_pos = \<lparr>vec_x = 10, vec_y = 20\<rparr>,
      window_size = \<lparr>vec_x = w, vec_y = h\<rparr>,
      blur_strength = 95 / 100, corner_radius = 6, delay_time = 15 / 100\<rparr>"

definition host_context :: "ptr \<Rightarrow> d3d_context" where
  "host_context rtv =
     \<lparr>om_render_targets = [rtv], om_depth_stencil = Some 51,
      rs_viewports = [\<lparr>TopLeftX = 0, TopLeftY = 0, Width = 800, Height = 600, MinDepth = 0,
                       MaxDepth = 1\<rparr>],
      ps_shader_resource = Some 52, ps_shader = Some 53, ps_constant_buffer = None,
      ps_sampler = Some 54, vs_shader = Some 55, ia_vertex_buffer = Some 56,
      ia_input_layout = Some 57, ia_triangle_strip = False, rs_state = Some 58,
      om_blend_state = Some 59\<rparr>"

definition nominal_frame :: "real \<Rightarrow> bool \<Rightarrow> frame" where
  "nominal_frame t sb =
     \<lparr>frame_env = nominal_env t, frame_params = nominal_params 200 100,
      frame_should_blur = sb, frame_host = host_context (Some 50)\<rparr>"

text \<open>
  The renderer after a first frame with intent at time \<open>t\<close>: initialised, capture pending.
\<close>

definition armed_renderer :: "real \<Rightarrow> blur_renderer" where
  "armed_renderer t =
     new_renderer\<lparr>device_m := Some 100, context_m := Some 1, vertex_shader_m := Some 5,
       pixel_shader_horizontal_m := Some 6, pixel_shader_vertical_m := Some 7,
       vertex_buffer_m := Some 9, constant_buffer_m := Some 10, input_layout_m := Some 8,
       sampler_state_m := Some 11, blend_state_m := Some 12, rasterizer_state_m := Some 13,
       width_m := 200, height_m := 100, initialized_m := True,
       blur_enabled_last_frame_m := True, blur_enable_time_m := t,
       blur_capture_pending_m := True\<rparr>"

text \<open>
  The renderer after the capture and the blur have succeeded: the full texture set is held.
\<close>

definition shown_renderer :: "real \<Rightarrow> blur_renderer" where
  "shown_renderer t =
     (armed_renderer t)\<lparr>background_capture_m := Some 14, background_srv_m := Some 15,
       temp_texture_m := Some 16, temp_rtv_m := Some 17, temp_srv_m := Some 18,
       blur_texture_m := Some 19, blur_rtv_m := Some 20, blur_srv_m := Some 21,
       background_captured_m := True, blur_processed_m := True,
       blur_capture_pending_m := False\<rparr>"

text \<open>
  The renderer after a frame whose capture failed for want of a bound render target.
\<close>

definition stalled_renderer :: "real \<Rightarrow> blur_renderer" where
  "stalled_renderer t =
     (armed_renderer t)\<lparr>background_capture_m := Some 14, background_srv_m := Some 15,
       temp_texture_m := Some 16, temp_rtv_m := Some 17, temp_srv_m := Some 18,
       blur_texture_m := Some 19, blur_rtv_m := Some 20, blur_srv_m := Some 21,
       blur_capture_pending_m := False\<rparr>"

text \<open>The renderer after a resize to 300 by 150 with the intent held.\<close>

definition resized_renderer :: "real \<Rightarrow> blur_renderer" where
  "resized_renderer t =
     (armed_renderer t)\<lparr>width_m := 300, height_m := 150, blur_capture_pending_m := False\<rparr>"

text \<open>
  The renderer after a frame on which the capture texture and its view were created and the
  intermediate texture was not.
\<close>

definition partial_renderer :: "real \<Rightarrow> blur_renderer" where
  "partial_renderer t =
     (armed_renderer t)\<lparr>background_capture_m := Some 14, background_srv_m := Some 15,
       blur_capture_pending_m := False\<rparr>"

text \<open>
  Six frames at the same size: the intent is set, the intermediate texture cannot be created
  on the second frame, the intent is cleared on the third and set again from the fourth on,
  on a platform where every call succeeds.
\<close>

definition partial_set_frames :: "frame list" where
  "partial_set_frames =
     [nominal_frame 0 True,
      (nominal_frame 1 True)\<lparr>frame_env := (nominal_env 1)\<lparr>create_temp_texture := None\<rparr>\<rparr>,
      nominal_frame 2 False, nominal_frame 3 True, nominal_frame 4 True, nominal_frame 5 True]"

section \<open>How each function changes the state\<close>


lemma emit_simps [simp]:
  "self (emit c w) = self w" "gpu (emit c w) = gpu w" "calls (emit c w) = calls w @ [c]"
  by (simp_all add: emit_def)

lemma release_simps [simp]:
  "self (release p w) = self w" "gpu (release p w) = gpu w"
  "calls (release p w) = calls w @ release_calls p"
  by (simp_all add: release_def release_calls_def split: option.splits)

lemma release_calls_kinds [simp]:
  "list_ex is_draw (release_calls p) = False"
  "list_ex is_texture_alloc (release_calls p) = False"
  "list_ex is_capture (release_calls p) = False"
  by (simp_all add: release_calls_def split: option.splits)

lemma reset_state_simps [simp]:
  "gpu (reset_state w) = gpu w" "calls (reset_state w) = calls w"
  "self (reset_state w) = (self w)\<lparr>background_captured_m := False,
                          blur_processed_m := False,
                          blur_capture_pending_m := False\<rparr>"
  by (simp_all add: reset_state_def)

lemma cleanup_render_targets_self:
  "self (cleanup_render_targets w) =
     (self w)\<lparr>background_capture_m := None, background_srv_m := None,
               temp_texture_m := None, temp_rtv_m := None,
               temp_srv_m := None, blur_texture_m := None,
               blur_rtv_m := None, blur_srv_m := None\<rparr>"
  by (simp add: cleanup_render_targets_def Let_def)

lemma cleanup_render_targets_gpu [simp]: "gpu (cleanup_render_targets w) = gpu w"
  by (simp add: cleanup_render_targets_def Let_def)

lemma cleanup_render_targets_calls:
  "calls (cleanup_render_targets w) =
     calls w @ release_calls (background_capture_m (self w)) @ release_calls (background_srv_m (self w))
       @ release_calls (temp_texture_m (self w)) @ release_calls (temp_rtv_m (self w))
       @ release_calls (temp_srv_m (self w)) @ release_calls (blur_texture_m (self w))
       @ release_calls (blur_rtv_m (self w)) @ release_calls (blur_srv_m (self w))"
  by (simp add: cleanup_render_targets_def Let_def)

lemma cleanup_render_targets_kinds [simp]:
  "list_ex is_draw (calls (cleanup_render_targets w)) = list_ex is_draw (calls w)"
  "list_ex is_texture_alloc (calls (cleanup_render_targets w)) = list_ex is_texture_alloc (calls w)"
  "list_ex is_capture (calls (cleanup_render_targets w)) = list_ex is_capture (calls w)"
  by (simp_all add: cleanup_render_targets_calls)

lemma cleanup_all_self:
  "self (cleanup_all w) =
     (self w)\<lparr>background_capture_m := None, background_srv_m := None,
               temp_texture_m := None, temp_rtv_m := None,
               temp_srv_m := None, blur_texture_m := None,
               blur_rtv_m := None, blur_srv_m := None,
               vertex_shader_m := None, pixel_shader_horizontal_m := None,
               pixel_shader_vertical_m := None, vertex_buffer_m := None,
               constant_buffer_m := None, input_layout_m := None,
               sampler_state_m := None, blend_state_m := None,
               rasterizer_state_m := None, context_m := None,
               initialized_m := False, device_m := None\<rparr>"
  by (simp add: cleanup_all_def Let_def cleanup_render_targets_self)

lemma cleanup_all_gpu [simp]: "gpu (cleanup_all w) = gpu w"
  by (simp add: cleanup_all_def Let_def)

lemma cleanup_all_calls:
  "calls (cleanup_all w) =
     calls (cleanup_render_targets w) @ release_calls (vertex_shader_m (self w))
       @ release_calls (pixel_shader_horizontal_m (self w))
       @ release_calls (pixel_shader_vertical_m (self w))
       @ release_calls (vertex_buffer_m (self w)) @ release_calls (constant_buffer_m (self w))
       @ release_calls (input_layout_m (self w)) @ release_calls (sampler_state_m (self w))
       @ release_calls (blend_state_m (self w)) @ release_calls (rasterizer_state_m (self w))
       @ release_calls (context_m (self w))"
  by (simp add: cleanup_all_def Let_def cleanup_render_targets_self)

lemma cleanup_all_kinds [simp]:
  "list_ex is_draw (calls (cleanup_all w)) = list_ex is_draw (calls w)"
  "list_ex is_texture_alloc (calls (cleanup_all w)) = list_ex is_texture_alloc (calls w)"
  "list_ex is_capture (calls (cleanup_all w)) = list_ex is_capture (calls w)"
  by (simp_all add: cleanup_all_calls)

lemma initialize_shaders_gpu [simp]: "gpu (snd (initialize_shaders env w)) = gpu w"
  by (simp add: initialize_shaders_def Let_def split_beta)

lemma initialize_shaders_kinds [simp]:
  "list_ex is_draw (calls (snd (initialize_shaders env w))) = list_ex is_draw (calls w)"
  "list_ex is_texture_alloc (calls (snd (initialize_shaders env w))) = list_ex is_texture_alloc (calls w)"
  "list_ex is_capture (calls (snd (initialize_shaders env w))) = list_ex is_capture (calls w)"
  by (simp_all add: initialize_shaders_def Let_def split_beta)

lemma initialize_render_states_gpu [simp]: "gpu (snd (initialize_render_states env w)) = gpu w"
  by (simp add: initialize_render_states_def Let_def)

lemma initialize_render_states_kinds [simp]:
  "list_ex is_draw (calls (snd (initialize_render_states env w))) = list_ex is_draw (calls w)"
  "list_ex is_texture_alloc (calls (snd (initialize_render_states env w))) = list_ex is_texture_alloc (calls w)"
  "list_ex is_capture (calls (snd (initialize_render_states env w))) = list_ex is_capture (calls w)"
  by (simp_all add: initialize_render_states_def Let_def)


text \<open>What \<open>ensure_pipeline\<close> leaves alone: the activation flags and the window size.\<close>

lemma initialize_shaders_fields [simp]:
  "background_captured_m (self (snd (initialize_shaders env w))) = background_captured_m (self w)"
  "blur_processed_m (self (snd (initialize_shaders env w))) = blur_processed_m (self w)"
  "blur_capture_pending_m (self (snd (initialize_shaders env w))) = blur_capture_pending_m (self w)"
  "blur_enabled_last_frame_m (self (snd (initialize_shaders env w))) = blur_enabled_last_frame_m (self w)"
  "blur_enable_time_m (self (snd (initialize_shaders env w))) = blur_enable_time_m (self w)"
  "width_m (self (snd (initialize_shaders env w))) = width_m (self w)"
  "height_m (self (snd (initialize_shaders env w))) = height_m (self w)"
  "blur_srv_m (self (snd (initialize_shaders env w))) = blur_srv_m (self w)"
  "background_capture_m (self (snd (initialize_shaders env w))) = background_capture_m (self w)"
  by (simp_all add: initialize_shaders_def Let_def split_beta)

lemma initialize_render_states_fields [simp]:
  "background_captured_m (self (snd (initialize_render_states env w))) = background_captured_m (self w)"
  "blur_processed_m (self (snd (initialize_render_states env w))) = blur_processed_m (self w)"
  "blur_capture_pending_m (self (snd (initialize_render_states env w))) = blur_capture_pending_m (self w)"
  "blur_enabled_last_frame_m (self (snd (initialize_render_states env w))) = blur_enabled_last_frame_m (self w)"
  "blur_enable_time_m (self (snd (initialize_render_states env w))) = blur_enable_time_m (self w)"
  "width_m (self (snd (initialize_render_states env w))) = width_m (self w)"
  "height_m (self (snd (initialize_render_states env w))) = height_m (self w)"
  "blur_srv_m (self (snd (initialize_render_states env w))) = blur_srv_m (self w)"
  "background_capture_m (self (snd (initialize_render_states env w))) = background_capture_m (self w)"
  by (simp_all add: initialize_render_states_def Let_def)

lemma ensure_pipeline_fields [simp]:
  "background_captured_m (self (snd (ensure_pipeline env p w))) = background_captured_m (self w)"
  "blur_processed_m (self (snd (ensure_pipeline env p w))) = blur_processed_m (self w)"
  "blur_capture_pending_m (self (snd (ensure_pipeline env p w))) = blur_capture_pending_m (self w)"
  "blur_enabled_last_frame_m (self (snd (ensure_pipeline env p w))) = blur_enabled_last_frame_m (self w)"
  "blur_enable_time_m (self (snd (ensure_pipeline env p w))) = blur_enable_time_m (self w)"
  "width_m (self (snd (ensure_pipeline env p w))) = width_m (self w)"
  "height_m (self (snd (ensure_pipeline env p w))) = height_m (self w)"
  by (simp_all add: ensure_pipeline_def Let_def split_beta cleanup_all_self)

lemma ensure_pipeline_blur_srv:
  "blur_srv_m (self (snd (ensure_pipeline env p w))) = None
   \<or> blur_srv_m (self (snd (ensure_pipeline env p w))) = blur_srv_m (self w)"
  by (simp add: ensure_pipeline_def Let_def split_beta cleanup_all_self)

lemma ensure_pipeline_gpu [simp]: "gpu (snd (ensure_pipeline env p w)) = gpu w"
  by (simp add: ensure_pipeline_def Let_def split_beta)

lemma ensure_pipeline_kinds [simp]:
  "list_ex is_draw (calls (snd (ensure_pipeline env p w))) = list_ex is_draw (calls w)"
  "list_ex is_texture_alloc (calls (snd (ensure_pipeline env p w))) = list_ex is_texture_alloc (calls w)"
  "list_ex is_capture (calls (snd (ensure_pipeline env p w))) = list_ex is_capture (calls w)"
  by (simp_all add: ensure_pipeline_def Let_def split_beta)

text \<open>\<open>ensure_render_targets\<close> touches the texture pointers only.\<close>

lemma ensure_render_targets_self:
  "same_but_textures (self w) (self (snd (ensure_render_targets env a b w)))"
  by (simp add: ensure_render_targets_def same_but_textures_def Let_def create_texture_def
      cleanup_render_targets_self split_beta)

lemma same_but_textures_fields:
  assumes "same_but_textures r r'"
  shows "background_captured_m r' = background_captured_m r"
    and "blur_processed_m r' = blur_processed_m r"
    and "blur_capture_pending_m r' = blur_capture_pending_m r"
    and "blur_enabled_last_frame_m r' = blur_enabled_last_frame_m r"
    and "blur_enable_time_m r' = blur_enable_time_m r"
    and "width_m r' = width_m r"
    and "height_m r' = height_m r"
    and "initialized_m r' = initialized_m r"
    and "device_m r' = device_m r"
proof -
  from assms obtain a b c d e f g h where
    "r' = r\<lparr>background_capture_m := a, background_srv_m := b, temp_texture_m := c,
               temp_rtv_m := d, temp_srv_m := e, blur_texture_m := f, blur_rtv_m := g,
               blur_srv_m := h\<rparr>"
    unfolding same_but_textures_def by blast
  then show "background_captured_m r' = background_captured_m r"
    and "blur_processed_m r' = blur_processed_m r"
    and "blur_capture_pending_m r' = blur_capture_pending_m r"
    and "blur_enabled_last_frame_m r' = blur_enabled_last_frame_m r"
    and "blur_enable_time_m r' = blur_enable_time_m r"
    and "width_m r' = width_m r"
    and "height_m r' = height_m r"
    and "initialized_m r' = initialized_m r"
    and "device_m r' = device_m r"
    by simp_all
qed

lemmas ensure_render_targets_fields [simp] =
  same_but_textures_fields [OF ensure_render_targets_self]

lemma ensure_render_targets_gpu [simp]: "gpu (snd (ensure_render_targets env a b w)) = gpu w"
  by (simp add: ensure_render_targets_def Let_def split_beta)

lemma create_texture_kinds [simp]:
  "list_ex is_draw (snd (snd (snd (snd (create_texture a b t wr r ws s))))) = False"
  "list_ex is_capture (snd (snd (snd (snd (create_texture a b t wr r ws s))))) = False"
  by (simp_all add: create_texture_def)

lemma ensure_render_targets_kinds [simp]:
  "list_ex is_draw (calls (snd (ensure_render_targets env a b w))) = list_ex is_draw (calls w)"
  "list_ex is_capture (calls (snd (ensure_render_targets env a b w))) = list_ex is_capture (calls w)"
  by (simp_all add: ensure_render_targets_def Let_def split_beta)

text \<open>\<open>capture_background\<close> sets \<open>background_captured_\<close> and nothing else.\<close>

lemma capture_background_self:
  "self (snd (capture_background env pos sz w)) =
     (self w)\<lparr>background_captured_m :=
        background_captured_m (self w) \<or> fst (capture_background env pos sz w)\<rparr>"
  by (simp add: capture_background_def Let_def om_get_render_targets_def
      split: prod.splits option.splits list.splits)

lemma capture_background_gpu [simp]: "gpu (snd (capture_background env pos sz w)) = gpu w"
  by (simp add: capture_background_def Let_def om_get_render_targets_def
      split: prod.splits option.splits list.splits)

lemma capture_background_kinds [simp]:
  "list_ex is_draw (calls (snd (capture_background env pos sz w))) = list_ex is_draw (calls w)"
  "list_ex is_texture_alloc (calls (snd (capture_background env pos sz w))) = list_ex is_texture_alloc (calls w)"
  by (simp_all add: capture_background_def Let_def om_get_render_targets_def
      split: prod.splits option.splits list.splits)

text \<open>\<open>process_blur\<close> behind its guard.\<close>

lemmas context_call_defs =
  om_get_render_targets_def rs_get_viewports_def bind_pipeline_def rs_set_viewports_def
  om_set_render_targets_def ps_set_shader_def ps_set_shader_resources_def draw_def

lemma context_calls_self [simp]:
  "self (snd (snd (om_get_render_targets w))) = self w"
  "self (snd (rs_get_viewports v w)) = self w"
  "self (bind_pipeline w) = self w"
  "self (rs_set_viewports v w) = self w"
  "self (om_set_render_targets p q w) = self w"
  "self (ps_set_shader p w) = self w"
  "self (ps_set_shader_resources p w) = self w"
  "self (draw w) = self w"
  by (simp_all add: context_call_defs Let_def)

lemma context_calls_kinds [simp]:
  "list_ex is_draw (calls (snd (snd (om_get_render_targets w)))) = list_ex is_draw (calls w)"
  "list_ex is_draw (calls (snd (rs_get_viewports v w))) = list_ex is_draw (calls w)"
  "list_ex is_draw (calls (bind_pipeline w)) = list_ex is_draw (calls w)"
  "list_ex is_draw (calls (rs_set_viewports v w)) = list_ex is_draw (calls w)"
  "list_ex is_draw (calls (om_set_render_targets p q w)) = list_ex is_draw (calls w)"
  "list_ex is_draw (calls (ps_set_shader p w)) = list_ex is_draw (calls w)"
  "list_ex is_draw (calls (ps_set_shader_resources p w)) = list_ex is_draw (calls w)"
  "list_ex is_draw (calls (draw w)) = list_ex is_draw (calls w)"
  "list_ex is_texture_alloc (calls (snd (snd (om_get_render_targets w)))) = list_ex is_texture_alloc (calls w)"
  "list_ex is_texture_alloc (calls (snd (rs_get_viewports v w))) = list_ex is_texture_alloc (calls w)"
  "list_ex is_texture_alloc (calls (bind_pipeline w)) = list_ex is_texture_alloc (calls w)"
  "list_ex is_texture_alloc (calls (rs_set_viewports v w)) = list_ex is_texture_alloc (calls w)"
  "list_ex is_texture_alloc (calls (om_set_render_targets p q w)) = list_ex is_texture_alloc (calls w)"
  "list_ex is_texture_alloc (calls (ps_set_shader p w)) = list_ex is_texture_alloc (calls w)"
  "list_ex is_texture_alloc (calls (ps_set_shader_resources p w)) = list_ex is_texture_alloc (calls w)"
  "list_ex is_texture_alloc (calls (draw w)) = list_ex is_texture_alloc (calls w)"
  "list_ex is_capture (calls (snd (snd (om_get_render_targets w)))) = list_ex is_capture (calls w)"
  "list_ex is_capture (calls (snd (rs_get_viewports v w))) = list_ex is_capture (calls w)"
  "list_ex is_capture (calls (bind_pipeline w)) = list_ex is_capture (calls w)"
  "list_ex is_capture (calls (rs_set_viewports v w)) = list_ex is_capture (calls w)"
  "list_ex is_capture (calls (om_set_render_targets p q w)) = list_ex is_capture (calls w)"
  "list_ex is_capture (calls (ps_set_shader p w)) = list_ex is_capture (calls w)"
  "list_ex is_capture (calls (ps_set_shader_resources p w)) = list_ex is_capture (calls w)"
  "list_ex is_capture (calls (draw w)) = list_ex is_capture (calls w)"
  by (simp_all add: context_call_defs Let_def)

lemma process_blur_guard:
  "\<not> background_captured_m (self w) \<Longrightarrow> process_blur env s w = (False, w)"
  by (simp add: process_blur_def)


lemma process_blur_self:
  "self (snd (process_blur env s w)) =
     (if background_captured_m (self w) then (self w)\<lparr>blur_processed_m := True\<rparr> else self w)"
  by (simp add: process_blur_def Let_def split_beta)

lemma process_blur_kinds [simp]:
  "list_ex is_draw (calls (snd (process_blur env s w))) = list_ex is_draw (calls w)"
  "list_ex is_texture_alloc (calls (snd (process_blur env s w))) = list_ex is_texture_alloc (calls w)"
  "list_ex is_capture (calls (snd (process_blur env s w))) = list_ex is_capture (calls w)"
  by (simp_all add: process_blur_def Let_def split_beta)

lemma render_frame_steps:
  "render_frame env params should_blur w =
     (let window_width = trunc_int (vec_x (window_size params));
          window_height = trunc_int (vec_y (window_size params))
      in if window_width \<le> 0 \<or> window_height \<le> 0 then (False, w)
         else (True,
               draw_step params should_blur
                 (capture_step env params should_blur window_width window_height
                    (edge_step should_blur (get_time env)
                       (resize_step window_width window_height w)))))"
  unfolding render_frame_def resize_step_def edge_step_def capture_step_def draw_step_def Let_def
  by (rule refl)


lemma resize_step_fields [simp]:
  "blur_enabled_last_frame_m (self (resize_step a b w)) = blur_enabled_last_frame_m (self w)"
  "blur_enable_time_m (self (resize_step a b w)) = blur_enable_time_m (self w)"
  "width_m (self (resize_step a b w)) = a"
  "height_m (self (resize_step a b w)) = b"
  "gpu (resize_step a b w) = gpu w"
  "list_ex is_draw (calls (resize_step a b w)) = list_ex is_draw (calls w)"
  "list_ex is_texture_alloc (calls (resize_step a b w)) = list_ex is_texture_alloc (calls w)"
  "list_ex is_capture (calls (resize_step a b w)) = list_ex is_capture (calls w)"
  by (auto simp add: resize_step_def Let_def cleanup_render_targets_self)

lemma resize_step_same:
  "width_m (self w) = a \<Longrightarrow> height_m (self w) = b \<Longrightarrow> resize_step a b w = w"
  by (simp add: resize_step_def)

lemma resize_step_changed:
  "width_m (self w) \<noteq> a \<or> height_m (self w) \<noteq> b \<Longrightarrow>
   self (resize_step a b w) =
     (self w)\<lparr>background_capture_m := None, background_srv_m := None,
               temp_texture_m := None, temp_rtv_m := None,
               temp_srv_m := None, blur_texture_m := None,
               blur_rtv_m := None, blur_srv_m := None,
               background_captured_m := False, blur_processed_m := False,
               blur_capture_pending_m := False, width_m := a, height_m := b\<rparr>"
  by (simp add: resize_step_def Let_def cleanup_render_targets_self)

lemma resize_step_flags:
  "blur_processed_m (self (resize_step a b w)) \<Longrightarrow> resize_step a b w = w"
  "blur_capture_pending_m (self (resize_step a b w)) \<Longrightarrow> resize_step a b w = w"
  "background_captured_m (self (resize_step a b w)) \<Longrightarrow> resize_step a b w = w"
  by (cases "width_m (self w) = a \<and> height_m (self w) = b";
      simp add: resize_step_same resize_step_changed)+

lemma edge_step_fields [simp]:
  "gpu (edge_step sb t w) = gpu w"
  "calls (edge_step sb t w) = calls w"
  "blur_enabled_last_frame_m (self (edge_step sb t w)) = blur_enabled_last_frame_m (self w)"
  "blur_srv_m (self (edge_step sb t w)) = blur_srv_m (self w)"
  "width_m (self (edge_step sb t w)) = width_m (self w)"
  "height_m (self (edge_step sb t w)) = height_m (self w)"
  "blur_enable_time_m (self (edge_step sb t w)) =
     (if sb \<and> \<not> blur_enabled_last_frame_m (self w) then t else blur_enable_time_m (self w))"
  "blur_processed_m (self (edge_step sb t w)) =
     (blur_processed_m (self w) \<and> sb = blur_enabled_last_frame_m (self w))"
  "background_captured_m (self (edge_step sb t w)) =
     (background_captured_m (self w) \<and> sb = blur_enabled_last_frame_m (self w))"
  "blur_capture_pending_m (self (edge_step sb t w)) =
     (if sb = blur_enabled_last_frame_m (self w) then blur_capture_pending_m (self w) else sb)"
  by (auto simp add: edge_step_def Let_def)

lemma edge_step_same:
  "sb = blur_enabled_last_frame_m (self w) \<Longrightarrow> edge_step sb t w = w"
  by (simp add: edge_step_def)

lemma capture_step_skip:
  "\<not> sb \<or> \<not> blur_capture_pending_m (self w) \<or> blur_processed_m (self w)
     \<or> get_time env - blur_enable_time_m (self w) < delay_time p \<Longrightarrow>
   capture_step env p sb a b w = w"
  by (auto simp add: capture_step_def)

lemma capture_step_fields [simp]:
  "blur_enabled_last_frame_m (self (capture_step env p sb a b w)) = blur_enabled_last_frame_m (self w)"
  "blur_enable_time_m (self (capture_step env p sb a b w)) = blur_enable_time_m (self w)"
  "width_m (self (capture_step env p sb a b w)) = width_m (self w)"
  "height_m (self (capture_step env p sb a b w)) = height_m (self w)"
  "list_ex is_draw (calls (capture_step env p sb a b w)) = list_ex is_draw (calls w)"
  by (simp_all add: capture_step_def Let_def split_beta capture_background_self process_blur_self)

lemma capture_step_pending_eq:
  "blur_capture_pending_m (self (capture_step env p sb a b w)) =
     (blur_capture_pending_m (self w) \<and>
      \<not> (sb \<and> \<not> blur_processed_m (self w)
           \<and> delay_time p \<le> get_time env - blur_enable_time_m (self w)))"
  by (auto simp add: capture_step_def Let_def split_beta capture_background_self process_blur_self)

lemma capture_step_pending:
  "blur_capture_pending_m (self (capture_step env p sb a b w)) \<Longrightarrow>
   capture_step env p sb a b w = w"
  by (rule capture_step_skip) (auto simp add: capture_step_pending_eq)


lemma capture_step_inv:
  "(blur_processed_m (self w) \<longrightarrow> background_captured_m (self w)) \<Longrightarrow>
   blur_processed_m (self (capture_step env p sb a b w)) \<Longrightarrow>
   background_captured_m (self (capture_step env p sb a b w))"
  by (simp add: capture_step_def Let_def split_beta capture_background_self process_blur_self
      split: if_splits)

lemma draw_step_fields [simp]:
  "gpu (draw_step p sb w) = gpu w"
  "self (draw_step p sb w) = (self w)\<lparr>blur_enabled_last_frame_m := sb\<rparr>"
  "list_ex is_texture_alloc (calls (draw_step p sb w)) = list_ex is_texture_alloc (calls w)"
  "list_ex is_capture (calls (draw_step p sb w)) = list_ex is_capture (calls w)"
  "list_ex is_draw (calls (draw_step p sb w)) =
     (list_ex is_draw (calls w) \<or> sb \<and> blur_processed_m (self w) \<and> blur_srv_m (self w) \<noteq> None)"
  by (auto simp add: draw_step_def Let_def)

section \<open>One call of \<open>render\<close>\<close>


lemma render_reject:
  "device p = None \<or> draw_list p = None \<Longrightarrow> render env p sb w = (False, w)"
  by (simp add: render_def)

lemma render_accept:
  "device p \<noteq> None \<Longrightarrow> draw_list p \<noteq> None \<Longrightarrow>
   render env p sb w =
     (if fst (ensure_pipeline env p w)
      then render_frame env p sb (snd (ensure_pipeline env p w))
      else (False, snd (ensure_pipeline env p w)))"
  by (auto simp add: render_def split_beta)

lemma render_frame_bad_size:
  "trunc_int (vec_x (window_size p)) \<le> 0 \<or> trunc_int (vec_y (window_size p)) \<le> 0 \<Longrightarrow>
   render_frame env p sb w = (False, w)"
  by (auto simp add: render_frame_def Let_def)

lemma render_frame_good_size:
  "0 < trunc_int (vec_x (window_size p)) \<Longrightarrow> 0 < trunc_int (vec_y (window_size p)) \<Longrightarrow>
   render_frame env p sb w =
     (True,
      draw_step p sb
        (capture_step env p sb (trunc_int (vec_x (window_size p)))
           (trunc_int (vec_y (window_size p)))
           (edge_step sb (get_time env)
              (resize_step (trunc_int (vec_x (window_size p)))
                 (trunc_int (vec_y (window_size p))) w))))"
  by (simp add: render_frame_steps Let_def)

text \<open>The invariant of the two flags.\<close>

lemma render_frame_inv:
  assumes "blur_processed_m (self w) \<longrightarrow> background_captured_m (self w)"
  shows "blur_processed_m (self (snd (render_frame env p sb w))) \<longrightarrow>
         background_captured_m (self (snd (render_frame env p sb w)))"
proof (cases "0 < trunc_int (vec_x (window_size p)) \<and> 0 < trunc_int (vec_y (window_size p))")
  case False
  then show ?thesis using assms by (simp add: render_frame_bad_size not_less)
next
  case True
  let ?a = "trunc_int (vec_x (window_size p))" and ?b = "trunc_int (vec_y (window_size p))"
  let ?w1 = "resize_step ?a ?b w"
  let ?w2 = "edge_step sb (get_time env) ?w1"
  have "blur_processed_m (self ?w1) \<longrightarrow> background_captured_m (self ?w1)"
    using assms resize_step_flags(1) [of ?a ?b w] by auto
  then have "blur_processed_m (self ?w2) \<longrightarrow> background_captured_m (self ?w2)"
    by simp
  then show ?thesis
    using True capture_step_inv [of ?w2 env p sb ?a ?b]
    by (simp add: render_frame_good_size)
qed

lemma render_inv:
  assumes "blur_processed_m (self w) \<longrightarrow> background_captured_m (self w)"
  shows "blur_processed_m (self (snd (render env p sb w))) \<longrightarrow>
         background_captured_m (self (snd (render env p sb w)))"
proof (cases "device p = None \<or> draw_list p = None")
  case True
  then show ?thesis using assms by (simp add: render_reject)
next
  case False
  have "blur_processed_m (self (snd (ensure_pipeline env p w))) \<longrightarrow>
        background_captured_m (self (snd (ensure_pipeline env p w)))"
    using assms by simp
  from render_frame_inv [OF this] False assms show ?thesis
    by (simp add: render_accept)
qed

lemma render_frame_draw:
  assumes "\<not> list_ex is_draw (calls w)"
    and "list_ex is_draw (calls (snd (render_frame env p sb w)))"
  shows "sb \<and> fst (render_frame env p sb w)
         \<and> blur_processed_m (self (snd (render_frame env p sb w)))
         \<and> blur_srv_m (self (snd (render_frame env p sb w))) \<noteq> None"
proof (cases "0 < trunc_int (vec_x (window_size p)) \<and> 0 < trunc_int (vec_y (window_size p))")
  case False
  then show ?thesis using assms by (simp add: render_frame_bad_size not_less)
next
  case True
  then show ?thesis using assms by (auto simp add: render_frame_good_size)
qed

lemma render_draw:
  assumes "\<not> list_ex is_draw (calls w)"
    and "list_ex is_draw (calls (snd (render env p sb w)))"
  shows "sb \<and> fst (render env p sb w)
         \<and> blur_processed_m (self (snd (render env p sb w)))
         \<and> blur_srv_m (self (snd (render env p sb w))) \<noteq> None"
proof (cases "device p = None \<or> draw_list p = None")
  case True
  then show ?thesis using assms by (simp add: render_reject)
next
  case False
  show ?thesis
  proof (cases "fst (ensure_pipeline env p w)")
    case True
    with False assms render_frame_draw [of "snd (ensure_pipeline env p w)" env p sb]
    show ?thesis by (auto simp add: render_accept)
  next
    case no: False
    with False assms show ?thesis by (auto simp add: render_accept)
  qed
qed

lemma ensure_pipeline_ready:
  "initialized_m (self w) \<Longrightarrow> device_m (self w) = device p \<Longrightarrow>
   ensure_pipeline env p w = (True, w)"
  by (simp add: ensure_pipeline_def)

lemma initialize_shaders_ok:
  assumes "pipeline_succeeds env"
  shows "fst (initialize_shaders env w)"
    and "self (snd (initialize_shaders env w)) =
           (self w)\<lparr>vertex_shader_m := create_vertex_shader env,
                     pixel_shader_horizontal_m := create_pixel_shader_h env,
                     pixel_shader_vertical_m := create_pixel_shader_v env,
                     input_layout_m := create_input_layout env\<rparr>"
  using assms unfolding pipeline_succeeds_def
  by (simp_all add: initialize_shaders_def Let_def del: not_None_eq)

lemma initialize_render_states_ok:
  assumes "pipeline_succeeds env"
  shows "fst (initialize_render_states env w)"
    and "self (snd (initialize_render_states env w)) =
           (self w)\<lparr>vertex_buffer_m := create_vertex_buffer env,
                     constant_buffer_m := create_constant_buffer env,
                     sampler_state_m := create_sampler_state env,
                     blend_state_m := create_blend_state env,
                     rasterizer_state_m := create_rasterizer_state env\<rparr>"
  using assms unfolding pipeline_succeeds_def
  by (simp_all add: initialize_render_states_def Let_def del: not_None_eq)

lemma ensure_pipeline_fresh:
  assumes "\<not> initialized_m (self w) \<or> device_m (self w) \<noteq> device p"
    and "pipeline_succeeds env"
  shows "fst (ensure_pipeline env p w)"
    and "self (snd (ensure_pipeline env p w)) =
           (self w)\<lparr>background_capture_m := None, background_srv_m := None,
               temp_texture_m := None, temp_rtv_m := None,
               temp_srv_m := None, blur_texture_m := None,
               blur_rtv_m := None, blur_srv_m := None,
               vertex_shader_m := create_vertex_shader env,
               pixel_shader_horizontal_m := create_pixel_shader_h env,
               pixel_shader_vertical_m := create_pixel_shader_v env,
               vertex_buffer_m := create_vertex_buffer env,
               constant_buffer_m := create_constant_buffer env,
               input_layout_m := create_input_layout env,
               sampler_state_m := create_sampler_state env,
               blend_state_m := create_blend_state env,
               rasterizer_state_m := create_rasterizer_state env,
               context_m := Some (immediate_context env),
               initialized_m := True, device_m := device p\<rparr>"
  using assms
  by (simp_all add: ensure_pipeline_def Let_def split_beta initialize_shaders_ok
      initialize_render_states_ok cleanup_all_self)

lemma ensure_render_targets_noop:
  "background_capture_m (self w) \<noteq> None \<Longrightarrow> width_m (self w) = a \<Longrightarrow> height_m (self w) = b \<Longrightarrow>
   ensure_render_targets env a b w = (True, w)"
  by (auto simp add: ensure_render_targets_def)

lemma ensure_render_targets_alloc:
  assumes "background_capture_m (self w) = None \<or> width_m (self w) \<noteq> a \<or> height_m (self w) \<noteq> b"
    and "textures_succeed env"
  shows "fst (ensure_render_targets env a b w)"
    and "self (snd (ensure_render_targets env a b w)) =
           (self w)\<lparr>background_capture_m := create_capture_texture env,
                     background_srv_m := create_capture_srv env,
                     temp_texture_m := create_temp_texture env,
                     temp_rtv_m := create_temp_rtv env,
                     temp_srv_m := create_temp_srv env,
                     blur_texture_m := create_blur_texture env,
                     blur_rtv_m := create_blur_rtv env,
                     blur_srv_m := create_blur_srv env\<rparr>"
proof -
  have guard: "\<not> (background_capture_m (self w) \<noteq> None \<and> width_m (self w) = a
                  \<and> height_m (self w) = b)"
    using assms(1) by auto
  show "fst (ensure_render_targets env a b w)"
    and "self (snd (ensure_render_targets env a b w)) =
           (self w)\<lparr>background_capture_m := create_capture_texture env,
                     background_srv_m := create_capture_srv env,
                     temp_texture_m := create_temp_texture env,
                     temp_rtv_m := create_temp_rtv env,
                     temp_srv_m := create_temp_srv env,
                     blur_texture_m := create_blur_texture env,
                     blur_rtv_m := create_blur_rtv env,
                     blur_srv_m := create_blur_srv env\<rparr>"
    using assms(2) unfolding textures_succeed_def ensure_render_targets_def if_not_P [OF guard]
    by (simp_all add: Let_def create_texture_def cleanup_render_targets_self del: not_None_eq)
qed

lemma capture_background_fst:
  "fst (capture_background env pos sz w) =
     (fst (om_get_render_targets w) \<noteq> None \<and> get_resource env \<noteq> None)"
  by (auto simp add: capture_background_def om_get_render_targets_def Let_def
      split: option.splits list.splits)


lemma nominal_env_simps [simp]:
  "immediate_context (nominal_env t) = 1"
  "compile_vs (nominal_env t) = Some 2" "compile_ps_h (nominal_env t) = Some 3"
  "compile_ps_v (nominal_env t) = Some 4" "create_vertex_shader (nominal_env t) = Some 5"
  "create_pixel_shader_h (nominal_env t) = Some 6"
  "create_pixel_shader_v (nominal_env t) = Some 7"
  "create_input_layout (nominal_env t) = Some 8"
  "create_vertex_buffer (nominal_env t) = Some 9"
  "create_constant_buffer (nominal_env t) = Some 10"
  "create_sampler_state (nominal_env t) = Some 11"
  "create_blend_state (nominal_env t) = Some 12"
  "create_rasterizer_state (nominal_env t) = Some 13"
  "create_capture_texture (nominal_env t) = Some 14"
  "create_capture_srv (nominal_env t) = Some 15"
  "create_temp_texture (nominal_env t) = Some 16"
  "create_temp_rtv (nominal_env t) = Some 17"
  "create_temp_srv (nominal_env t) = Some 18"
  "create_blur_texture (nominal_env t) = Some 19"
  "create_blur_rtv (nominal_env t) = Some 20"
  "create_blur_srv (nominal_env t) = Some 21"
  "get_resource (nominal_env t) = Some 22"
  "map_ok (nominal_env t)"
  "get_time (nominal_env t) = t"
  by (simp_all add: nominal_env_def)

lemma nominal_env_succeeds [simp]:
  "pipeline_succeeds (nominal_env t)" "textures_succeed (nominal_env t)"
  by (simp_all add: pipeline_succeeds_def textures_succeed_def)

lemma nominal_params_simps [simp]:
  "device (nominal_params a b) = Some 100" "draw_list (nominal_params a b) = Some 101"
  "window_pos (nominal_params a b) = \<lparr>vec_x = 10, vec_y = 20\<rparr>"
  "window_size (nominal_params a b) = \<lparr>vec_x = a, vec_y = b\<rparr>"
  "blur_strength (nominal_params a b) = 95 / 100"
  "corner_radius (nominal_params a b) = 6"
  "delay_time (nominal_params a b) = 15 / 100"
  by (simp_all add: nominal_params_def)

lemma host_context_simps [simp]:
  "om_render_targets (host_context rtv) = [rtv]"
  "om_depth_stencil (host_context rtv) = Some 51"
  "rs_viewports (host_context rtv) =
     [\<lparr>TopLeftX = 0, TopLeftY = 0, Width = 800, Height = 600, MinDepth = 0, MaxDepth = 1\<rparr>]"
  "ps_shader_resource (host_context rtv) = Some 52"
  by (simp_all add: host_context_def)

lemma nominal_frame_simps [simp]:
  "frame_env (nominal_frame t sb) = nominal_env t"
  "frame_params (nominal_frame t sb) = nominal_params 200 100"
  "frame_should_blur (nominal_frame t sb) = sb"
  "frame_host (nominal_frame t sb) = host_context (Some 50)"
  by (simp_all add: nominal_frame_def)

lemma trunc_int_numeral [simp]: "trunc_int (numeral n) = numeral n" "trunc_int 0 = 0"
  by (simp_all add: trunc_int_def)

lemma first_frame:
  "self (snd (call_render (nominal_frame 0 True) new_renderer)) = armed_renderer 0"
  by (simp add: call_render_def render_accept ensure_pipeline_fresh render_frame_good_size
      resize_step_changed edge_step_def capture_step_skip new_renderer_def armed_renderer_def)

lemma armed_renderer_simps [simp]:
  "initialized_m (armed_renderer t)" "device_m (armed_renderer t) = Some 100"
  "width_m (armed_renderer t) = 200" "height_m (armed_renderer t) = 100"
  "blur_enabled_last_frame_m (armed_renderer t)" "blur_enable_time_m (armed_renderer t) = t"
  "blur_capture_pending_m (armed_renderer t)" "\<not> blur_processed_m (armed_renderer t)"
  "\<not> background_captured_m (armed_renderer t)"
  "background_capture_m (armed_renderer t) = None"
  "blur_srv_m (armed_renderer t) = None"
  by (simp_all add: armed_renderer_def new_renderer_def)

lemma call_render_ready:
  assumes "device (frame_params f) \<noteq> None" "draw_list (frame_params f) \<noteq> None"
    and "initialized_m r" "device_m r = device (frame_params f)"
    and "0 < trunc_int (vec_x (window_size (frame_params f)))"
    and "0 < trunc_int (vec_y (window_size (frame_params f)))"
  shows "call_render f r =
     (True,
      draw_step (frame_params f) (frame_should_blur f)
        (capture_step (frame_env f) (frame_params f) (frame_should_blur f)
           (trunc_int (vec_x (window_size (frame_params f))))
           (trunc_int (vec_y (window_size (frame_params f))))
           (edge_step (frame_should_blur f) (get_time (frame_env f))
              (resize_step (trunc_int (vec_x (window_size (frame_params f))))
                 (trunc_int (vec_y (window_size (frame_params f))))
                 \<lparr>self = r, gpu = frame_host f, calls = []\<rparr>))))"
  using assms
  by (simp add: call_render_def render_accept ensure_pipeline_ready render_frame_good_size
      del: not_None_eq)

lemma capture_step_success:
  assumes "sb" "blur_capture_pending_m (self w)" "\<not> blur_processed_m (self w)"
    and "delay_time p \<le> get_time env - blur_enable_time_m (self w)"
    and "background_capture_m (self w) = None" "textures_succeed env"
    and "fst (om_get_render_targets w) \<noteq> None" "get_resource env \<noteq> None"
  shows "self (capture_step env p sb a b w) =
           (self w)\<lparr>background_capture_m := create_capture_texture env,
                     background_srv_m := create_capture_srv env,
                     temp_texture_m := create_temp_texture env,
                     temp_rtv_m := create_temp_rtv env,
                     temp_srv_m := create_temp_srv env,
                     blur_texture_m := create_blur_texture env,
                     blur_rtv_m := create_blur_rtv env,
                     blur_srv_m := create_blur_srv env,
                     background_captured_m := True, blur_processed_m := True,
                     blur_capture_pending_m := False\<rparr>"
  using assms
  by (simp add: capture_step_def Let_def split_beta ensure_render_targets_alloc
      capture_background_fst capture_background_self process_blur_self
      om_get_render_targets_def del: not_None_eq)

lemma second_frame:
  "1 \<le> t - s \<Longrightarrow>
   self (snd (call_render (nominal_frame t True) (armed_renderer s))) = shown_renderer s"
  by (simp add: call_render_ready resize_step_same edge_step_same capture_step_success
      om_get_render_targets_def shown_renderer_def armed_renderer_def new_renderer_def)

lemma second_frame_drew:
  "1 \<le> t - s \<Longrightarrow>
   list_ex is_draw (calls (snd (call_render (nominal_frame t True) (armed_renderer s))))"
  by (simp add: call_render_ready resize_step_same edge_step_same capture_step_success
      om_get_render_targets_def)

lemma two_frames_drew: "drew new_renderer [nominal_frame 0 True, nominal_frame 1 True] 1"
  by (simp add: drew_def outcome_def first_frame second_frame_drew)

lemma call_render_inv:
  "(blur_processed_m r \<longrightarrow> background_captured_m r) \<Longrightarrow>
   blur_processed_m (self (snd (call_render f r))) \<longrightarrow>
   background_captured_m (self (snd (call_render f r)))"
  unfolding call_render_def by (rule render_inv) simp

lemma run_inv:
  "(blur_processed_m r \<longrightarrow> background_captured_m r) \<Longrightarrow>
   blur_processed_m (run r fs) \<longrightarrow> background_captured_m (run r fs)"
proof (induction fs arbitrary: r)
  case Nil
  then show ?case by simp
next
  case (Cons f fs)
  from Cons.prems have "blur_processed_m (self (snd (call_render f r))) \<longrightarrow>
      background_captured_m (self (snd (call_render f r)))"
    by (rule call_render_inv)
  from Cons.IH [OF this] show ?case by simp
qed

lemma new_renderer_flags [simp]:
  "\<not> blur_processed_m new_renderer" "\<not> background_captured_m new_renderer"
  "\<not> blur_capture_pending_m new_renderer" "\<not> blur_enabled_last_frame_m new_renderer"
  "\<not> initialized_m new_renderer" "blur_srv_m new_renderer = None"
  "background_capture_m new_renderer = None"
  by (simp_all add: new_renderer_def)

lemma call_render_draw:
  assumes "list_ex is_draw (calls (snd (call_render f r)))"
  shows "frame_should_blur f \<and> fst (call_render f r)
         \<and> blur_processed_m (self (snd (call_render f r)))
         \<and> blur_srv_m (self (snd (call_render f r))) \<noteq> None"
  using assms
    render_draw [of "\<lparr>self = r, gpu = frame_host f, calls = []\<rparr>" "frame_env f"
      "frame_params f" "frame_should_blur f"]
  unfolding call_render_def by auto

lemma ensure_pipeline_fst:
  "pipeline_succeeds env \<Longrightarrow> fst (ensure_pipeline env p w)"
  by (cases "initialized_m (self w) \<and> device_m (self w) = device p")
    (simp_all add: ensure_pipeline_ready ensure_pipeline_fresh)

lemma render_frame_no_blur:
  "list_ex is_draw (calls (snd (render_frame env p False w))) = list_ex is_draw (calls w)"
  "list_ex is_texture_alloc (calls (snd (render_frame env p False w))) =
     list_ex is_texture_alloc (calls w)"
  by (cases "0 < trunc_int (vec_x (window_size p)) \<and> 0 < trunc_int (vec_y (window_size p))";
      simp add: render_frame_good_size render_frame_bad_size capture_step_skip not_less)+

lemma call_render_no_blur:
  assumes "\<not> frame_should_blur f"
  shows "\<not> list_ex is_draw (calls (snd (call_render f r)))"
    and "\<not> list_ex is_texture_alloc (calls (snd (call_render f r)))"
  using assms
  by (cases "device (frame_params f) = None \<or> draw_list (frame_params f) = None";
      cases "fst (ensure_pipeline (frame_env f) (frame_params f)
                   \<lparr>self = r, gpu = frame_host f, calls = []\<rparr>)";
      auto simp add: call_render_def render_reject render_accept render_frame_no_blur)+

lemma call_render_well_formed:
  assumes "well_formed_request (frame_params f)" and "pipeline_succeeds (frame_env f)"
  shows "fst (call_render f r)"
  using assms
  by (auto simp add: well_formed_request_def call_render_def render_accept ensure_pipeline_fst
      render_frame_good_size)

lemma release_calls_pipeline [simp]: "list_all is_pipeline_call (release_calls p)"
  by (simp add: release_calls_def split: option.splits)

lemma cleanup_all_pipeline_calls:
  "list_all is_pipeline_call (calls (cleanup_all w)) = list_all is_pipeline_call (calls w)"
  by (simp add: cleanup_all_calls cleanup_render_targets_calls)

lemma initialize_shaders_pipeline_calls:
  "list_all is_pipeline_call (calls (snd (initialize_shaders env w))) =
     list_all is_pipeline_call (calls w)"
  by (simp add: initialize_shaders_def Let_def split_beta)

lemma initialize_render_states_pipeline_calls:
  "list_all is_pipeline_call (calls (snd (initialize_render_states env w))) =
     list_all is_pipeline_call (calls w)"
  by (simp add: initialize_render_states_def Let_def)

lemma ensure_pipeline_pipeline_calls:
  "list_all is_pipeline_call (calls (snd (ensure_pipeline env p w))) =
     list_all is_pipeline_call (calls w)"
  by (simp add: ensure_pipeline_def Let_def split_beta cleanup_all_pipeline_calls
      initialize_shaders_pipeline_calls initialize_render_states_pipeline_calls)

lemma context_calls_gpu [simp]:
  "gpu (snd (snd (om_get_render_targets w))) = gpu w"
  "gpu (snd (rs_get_viewports v w)) = gpu w"
  "gpu (rs_set_viewports v w) = (gpu w)\<lparr>rs_viewports := [v]\<rparr>"
  "gpu (om_set_render_targets p q w) =
     (gpu w)\<lparr>om_render_targets := p # replicate (length (om_render_targets (gpu w)) - 1) None,
              om_depth_stencil := q\<rparr>"
  "gpu (ps_set_shader p w) = (gpu w)\<lparr>ps_shader := p\<rparr>"
  "gpu (ps_set_shader_resources p w) = (gpu w)\<lparr>ps_shader_resource := p\<rparr>"
  "gpu (draw w) = gpu w"
  "gpu (bind_pipeline w) =
     (gpu w)\<lparr>ia_vertex_buffer := vertex_buffer_m (self w),
              ia_input_layout := input_layout_m (self w),
              ia_triangle_strip := True,
              vs_shader := vertex_shader_m (self w),
              ps_constant_buffer := constant_buffer_m (self w),
              ps_sampler := sampler_state_m (self w),
              rs_state := rasterizer_state_m (self w),
              om_blend_state := blend_state_m (self w)\<rparr>"
  by (simp_all add: context_call_defs Let_def)

lemma context_calls_fst [simp]:
  "fst (snd (om_get_render_targets w)) = om_depth_stencil (gpu w)"
  "fst (rs_get_viewports v w) = (case rs_viewports (gpu w) of [] \<Rightarrow> v | u # _ \<Rightarrow> u)"
  by (simp_all add: context_call_defs)








lemma same_pipeline_refl [simp]: "same_pipeline r r"
  by (simp add: same_pipeline_def)































lemma call_render_cases:
  obtains
    (rejected) "\<not> fst (call_render f r)"
      "snd (call_render f r) = \<lparr>self = r, gpu = frame_host f, calls = []\<rparr>
       \<or> snd (call_render f r) =
            snd (ensure_pipeline (frame_env f) (frame_params f)
                   \<lparr>self = r, gpu = frame_host f, calls = []\<rparr>)"
  | (completed) "fst (call_render f r)"
      "snd (call_render f r) =
         draw_step (frame_params f) (frame_should_blur f)
           (capture_step (frame_env f) (frame_params f) (frame_should_blur f)
              (trunc_int (vec_x (window_size (frame_params f))))
              (trunc_int (vec_y (window_size (frame_params f))))
              (edge_step (frame_should_blur f) (get_time (frame_env f))
                 (resize_step (trunc_int (vec_x (window_size (frame_params f))))
                    (trunc_int (vec_y (window_size (frame_params f))))
                    (snd (ensure_pipeline (frame_env f) (frame_params f)
                            \<lparr>self = r, gpu = frame_host f, calls = []\<rparr>)))))"
proof -
  let ?w = "\<lparr>self = r, gpu = frame_host f, calls = []\<rparr>"
  let ?p = "frame_params f"
  let ?e = "ensure_pipeline (frame_env f) ?p ?w"
  show ?thesis
  proof (cases "device ?p = None \<or> draw_list ?p = None")
    case True
    then have "call_render f r = (False, ?w)"
      by (simp add: call_render_def render_reject)
    then show ?thesis by (intro rejected) simp_all
  next
    case handles: False
    show ?thesis
    proof (cases "fst ?e")
      case False
      with handles have "call_render f r = (False, snd ?e)"
        by (auto simp add: call_render_def render_accept)
      then show ?thesis by (intro rejected) simp_all
    next
      case ok: True
      show ?thesis
      proof (cases "0 < trunc_int (vec_x (window_size ?p)) \<and> 0 < trunc_int (vec_y (window_size ?p))")
        case False
        with handles ok have "call_render f r = (False, snd ?e)"
          by (auto simp add: call_render_def render_accept render_frame_bad_size not_less)
        then show ?thesis by (intro rejected) simp_all
      next
        case True
        with handles ok show ?thesis
          by (intro completed) (auto simp add: call_render_def render_accept render_frame_good_size)
      qed
    qed
  qed
qed

text \<open>A call that returns false leaves the activation state alone and draws nothing.\<close>

lemma call_render_rejected:
  assumes "\<not> fst (call_render f r)"
  shows "blur_enabled_last_frame_m (self (snd (call_render f r))) = blur_enabled_last_frame_m r"
    and "blur_processed_m (self (snd (call_render f r))) = blur_processed_m r"
    and "blur_capture_pending_m (self (snd (call_render f r))) = blur_capture_pending_m r"
    and "blur_enable_time_m (self (snd (call_render f r))) = blur_enable_time_m r"
    and "blur_srv_m (self (snd (call_render f r))) = None
         \<or> blur_srv_m (self (snd (call_render f r))) = blur_srv_m r"
    and "\<not> list_ex is_draw (calls (snd (call_render f r)))"
    and "\<not> list_ex is_capture (calls (snd (call_render f r)))"
    and "\<not> list_ex is_texture_alloc (calls (snd (call_render f r)))"
proof -
  let ?w = "\<lparr>self = r, gpu = frame_host f, calls = []\<rparr>"
  from assms have s: "snd (call_render f r) = ?w
       \<or> snd (call_render f r) = snd (ensure_pipeline (frame_env f) (frame_params f) ?w)"
    by - (rule call_render_cases [of f r], simp_all)
  from s show "blur_enabled_last_frame_m (self (snd (call_render f r))) = blur_enabled_last_frame_m r"
    by auto
  from s show "blur_processed_m (self (snd (call_render f r))) = blur_processed_m r"
    by auto
  from s show "blur_capture_pending_m (self (snd (call_render f r))) = blur_capture_pending_m r"
    by auto
  from s show "blur_enable_time_m (self (snd (call_render f r))) = blur_enable_time_m r"
    by auto
  from s ensure_pipeline_blur_srv [of "frame_env f" "frame_params f" ?w]
  show "blur_srv_m (self (snd (call_render f r))) = None
         \<or> blur_srv_m (self (snd (call_render f r))) = blur_srv_m r"
    by auto
  from s show "\<not> list_ex is_draw (calls (snd (call_render f r)))"
    by auto
  from s show "\<not> list_ex is_capture (calls (snd (call_render f r)))"
    by auto
  from s show "\<not> list_ex is_texture_alloc (calls (snd (call_render f r)))"
    by auto
qed

text \<open>A call that returns true: the flag of the last frame, and when it draws.\<close>

lemma call_render_completed:
  assumes "fst (call_render f r)"
  shows "blur_enabled_last_frame_m (self (snd (call_render f r))) = frame_should_blur f"
    and "list_ex is_draw (calls (snd (call_render f r))) =
           (frame_should_blur f \<and> blur_processed_m (self (snd (call_render f r)))
            \<and> blur_srv_m (self (snd (call_render f r))) \<noteq> None)"
    and "blur_enable_time_m (self (snd (call_render f r))) =
           (if frame_should_blur f \<and> \<not> blur_enabled_last_frame_m r
            then get_time (frame_env f) else blur_enable_time_m r)"
proof -
  from assms have s: "snd (call_render f r) =
         draw_step (frame_params f) (frame_should_blur f)
           (capture_step (frame_env f) (frame_params f) (frame_should_blur f)
              (trunc_int (vec_x (window_size (frame_params f))))
              (trunc_int (vec_y (window_size (frame_params f))))
              (edge_step (frame_should_blur f) (get_time (frame_env f))
                 (resize_step (trunc_int (vec_x (window_size (frame_params f))))
                    (trunc_int (vec_y (window_size (frame_params f))))
                    (snd (ensure_pipeline (frame_env f) (frame_params f)
                            \<lparr>self = r, gpu = frame_host f, calls = []\<rparr>)))))"
    by - (rule call_render_cases [of f r], simp_all)
  show "blur_enabled_last_frame_m (self (snd (call_render f r))) = frame_should_blur f"
    by (simp add: s)
  show "list_ex is_draw (calls (snd (call_render f r))) =
           (frame_should_blur f \<and> blur_processed_m (self (snd (call_render f r)))
            \<and> blur_srv_m (self (snd (call_render f r))) \<noteq> None)"
    by (simp add: s)
  show "blur_enable_time_m (self (snd (call_render f r))) =
           (if frame_should_blur f \<and> \<not> blur_enabled_last_frame_m r
            then get_time (frame_env f) else blur_enable_time_m r)"
    by (simp add: s)
qed





lemma capture_step_pending_after:
  "sb \<Longrightarrow> \<not> blur_processed_m (self w) \<Longrightarrow>
   delay_time p \<le> get_time env - blur_enable_time_m (self w) \<Longrightarrow>
   \<not> blur_capture_pending_m (self (capture_step env p sb a b w))"
  by (simp add: capture_step_pending_eq)

lemma capture_step_kinds_skip:
  "\<not> blur_capture_pending_m (self w) \<Longrightarrow> capture_step env p sb a b w = w"
  by (simp add: capture_step_skip)

text \<open>While stalled, a frame with the intent set changes nothing and attempts nothing.\<close>

lemma stalled_step:
  assumes "stalled r" and "frame_should_blur f"
  shows "stalled (self (snd (call_render f r)))"
    and "blur_enable_time_m (self (snd (call_render f r))) = blur_enable_time_m r"
    and "\<not> list_ex is_draw (calls (snd (call_render f r)))"
    and "\<not> list_ex is_capture (calls (snd (call_render f r)))"
    and "\<not> list_ex is_texture_alloc (calls (snd (call_render f r)))"
proof -
  let ?P = "stalled (self (snd (call_render f r)))
    \<and> blur_enable_time_m (self (snd (call_render f r))) = blur_enable_time_m r
    \<and> \<not> list_ex is_draw (calls (snd (call_render f r)))
    \<and> \<not> list_ex is_capture (calls (snd (call_render f r)))
    \<and> \<not> list_ex is_texture_alloc (calls (snd (call_render f r)))"
  have ?P
  proof (cases "fst (call_render f r)")
    case False
    from call_render_rejected [OF False] assms(1) show ?thesis
      by (simp add: stalled_def)
  next
    case True
    let ?sb = "frame_should_blur f" and ?p = "frame_params f" and ?env = "frame_env f"
    let ?a = "trunc_int (vec_x (window_size ?p))" and ?b = "trunc_int (vec_y (window_size ?p))"
    let ?w1 = "snd (ensure_pipeline ?env ?p \<lparr>self = r, gpu = frame_host f, calls = []\<rparr>)"
    let ?w2 = "resize_step ?a ?b ?w1"
    let ?w3 = "edge_step ?sb (get_time ?env) ?w2"
    from True have s: "snd (call_render f r) =
        draw_step ?p ?sb (capture_step ?env ?p ?sb ?a ?b ?w3)"
      by - (rule call_render_cases [of f r], simp_all)
    from assms(1) have 1: "blur_enabled_last_frame_m (self ?w1)"
      "\<not> blur_capture_pending_m (self ?w1)" "\<not> blur_processed_m (self ?w1)"
      by (simp_all add: stalled_def)
    have 2: "blur_enabled_last_frame_m (self ?w2)"
      "\<not> blur_capture_pending_m (self ?w2)" "\<not> blur_processed_m (self ?w2)"
      using 1 resize_step_flags(1,2) [of ?a ?b ?w1] by auto
    from 2(1) assms(2) have e: "?w3 = ?w2" by (simp add: edge_step_same)
    from 2(2) have c: "capture_step ?env ?p ?sb ?a ?b ?w2 = ?w2"
      by (simp add: capture_step_skip)
    from e c have "capture_step ?env ?p ?sb ?a ?b ?w3 = ?w2" by simp
    with s have s': "snd (call_render f r) = draw_step ?p ?sb ?w2" by simp
    show ?thesis
      using 2 assms(2) by (simp add: s' stalled_def)
  qed
  then show "stalled (self (snd (call_render f r)))"
    and "blur_enable_time_m (self (snd (call_render f r))) = blur_enable_time_m r"
    and "\<not> list_ex is_draw (calls (snd (call_render f r)))"
    and "\<not> list_ex is_capture (calls (snd (call_render f r)))"
    and "\<not> list_ex is_texture_alloc (calls (snd (call_render f r)))"
    by simp_all
qed

lemma stalled_run:
  "stalled r \<Longrightarrow> \<forall>g\<in>set gs. frame_should_blur g \<Longrightarrow>
   stalled (run r gs) \<and> blur_enable_time_m (run r gs) = blur_enable_time_m r"
proof (induction gs arbitrary: r)
  case Nil
  then show ?case by simp
next
  case (Cons g gs)
  from Cons.prems have sb: "frame_should_blur g" and rest: "\<forall>g\<in>set gs. frame_should_blur g"
    by simp_all
  from stalled_step(1,2) [OF Cons.prems(1) sb] Cons.IH [OF _ rest] show ?case
    by simp
qed

lemma stalled_outcome:
  assumes "stalled r" and "\<forall>g\<in>set gs. frame_should_blur g" and "n < length gs"
  shows "\<not> drew r gs n"
    and "\<not> list_ex is_capture (calls (snd (outcome r gs n)))"
    and "\<not> list_ex is_texture_alloc (calls (snd (outcome r gs n)))"
proof -
  from assms(2) have "\<forall>g\<in>set (take n gs). frame_should_blur g"
    by (meson in_set_takeD)
  from stalled_run [OF assms(1) this] have st: "stalled (run r (take n gs))" by simp
  from assms(2,3) have sb: "frame_should_blur (gs ! n)" by simp
  from stalled_step(3-5) [OF st sb]
  show "\<not> drew r gs n"
    and "\<not> list_ex is_capture (calls (snd (outcome r gs n)))"
    and "\<not> list_ex is_texture_alloc (calls (snd (outcome r gs n)))"
    by (simp_all add: drew_def outcome_def)
qed

text \<open>A completed frame with the intent held, the delay elapsed and nothing processed yet.\<close>

lemma attempt_clears_pending:
  assumes "frame_should_blur f" and "blur_enabled_last_frame_m r" and "\<not> blur_processed_m r"
    and "delay_time (frame_params f) \<le> get_time (frame_env f) - blur_enable_time_m r"
    and "fst (call_render f r)"
  shows "\<not> blur_capture_pending_m (self (snd (call_render f r)))"
    and "blur_enabled_last_frame_m (self (snd (call_render f r)))"
    and "blur_enable_time_m (self (snd (call_render f r))) = blur_enable_time_m r"
proof -
  let ?sb = "frame_should_blur f" and ?p = "frame_params f" and ?env = "frame_env f"
  let ?a = "trunc_int (vec_x (window_size ?p))" and ?b = "trunc_int (vec_y (window_size ?p))"
  let ?w1 = "snd (ensure_pipeline ?env ?p \<lparr>self = r, gpu = frame_host f, calls = []\<rparr>)"
  let ?w2 = "resize_step ?a ?b ?w1"
  let ?w3 = "edge_step ?sb (get_time ?env) ?w2"
  from assms(5) have s: "snd (call_render f r) =
      draw_step ?p ?sb (capture_step ?env ?p ?sb ?a ?b ?w3)"
    by - (rule call_render_cases [of f r], simp_all)
  have 2: "blur_enabled_last_frame_m (self ?w2)" "\<not> blur_processed_m (self ?w2)"
    "blur_enable_time_m (self ?w2) = blur_enable_time_m r"
    using assms(2,3) resize_step_flags(1) [of ?a ?b ?w1] by auto
  from 2(1) assms(1) have e: "?w3 = ?w2" by (simp add: edge_step_same)
  from capture_step_pending_after [of ?sb ?w2 ?p ?env ?a ?b] assms(1,4) 2
  have "\<not> blur_capture_pending_m (self (capture_step ?env ?p ?sb ?a ?b ?w2))"
    by simp
  with e have "\<not> blur_capture_pending_m (self (capture_step ?env ?p ?sb ?a ?b ?w3))"
    by simp
  with s show "\<not> blur_capture_pending_m (self (snd (call_render f r)))"
    by simp
  from call_render_completed(1,3) [OF assms(5)] assms(1,2)
  show "blur_enabled_last_frame_m (self (snd (call_render f r)))"
    and "blur_enable_time_m (self (snd (call_render f r))) = blur_enable_time_m r"
    by simp_all
qed

lemma stalled_renderer_simps [simp]:
  "initialized_m (stalled_renderer t)" "device_m (stalled_renderer t) = Some 100"
  "width_m (stalled_renderer t) = 200" "height_m (stalled_renderer t) = 100"
  "blur_enabled_last_frame_m (stalled_renderer t)"
  "blur_enable_time_m (stalled_renderer t) = t"
  "\<not> blur_capture_pending_m (stalled_renderer t)" "\<not> blur_processed_m (stalled_renderer t)"
  by (simp_all add: stalled_renderer_def armed_renderer_def new_renderer_def)

lemma unbound_frame:
  "1 \<le> t - s \<Longrightarrow>
   call_render ((nominal_frame t True)\<lparr>frame_host := host_context None\<rparr>) (armed_renderer s) =
     (True,
      \<lparr>self = stalled_renderer s, gpu = host_context None,
        calls = [CreateTexture2D 200 100, CreateShaderResourceView,
                 CreateTexture2D 200 100, CreateRenderTargetView, CreateShaderResourceView,
                 CreateTexture2D 200 100, CreateRenderTargetView, CreateShaderResourceView,
                 OMGetRenderTargets]\<rparr>)"
  by (simp add: call_render_ready resize_step_same edge_step_same capture_step_def
      ensure_render_targets_def create_texture_def cleanup_render_targets_def release_def
      capture_background_def om_get_render_targets_def emit_def draw_step_def Let_def
      stalled_renderer_def armed_renderer_def new_renderer_def)

lemma stalled_frame:
  "call_render (nominal_frame t True) (stalled_renderer s) =
     (True, \<lparr>self = stalled_renderer s, gpu = host_context (Some 50), calls = []\<rparr>)"
  by (simp add: call_render_ready resize_step_same edge_step_same capture_step_skip
      draw_step_def Let_def stalled_renderer_def armed_renderer_def new_renderer_def)

lemma shown_renderer_simps [simp]:
  "initialized_m (shown_renderer t)" "device_m (shown_renderer t) = Some 100"
  "width_m (shown_renderer t) = 200" "height_m (shown_renderer t) = 100"
  "blur_enabled_last_frame_m (shown_renderer t)" "blur_processed_m (shown_renderer t)"
  by (simp_all add: shown_renderer_def armed_renderer_def new_renderer_def)

lemma resized_renderer_simps [simp]:
  "initialized_m (resized_renderer t)" "device_m (resized_renderer t) = Some 100"
  "width_m (resized_renderer t) = 300" "height_m (resized_renderer t) = 150"
  "blur_enabled_last_frame_m (resized_renderer t)"
  "\<not> blur_capture_pending_m (resized_renderer t)" "\<not> blur_processed_m (resized_renderer t)"
  by (simp_all add: resized_renderer_def armed_renderer_def new_renderer_def)

lemma resize_frame:
  "call_render ((nominal_frame t True)\<lparr>frame_params := nominal_params 300 150\<rparr>)
     (shown_renderer s) =
     (True,
      \<lparr>self = resized_renderer s, gpu = host_context (Some 50),
        calls = [Release 14, Release 15, Release 16, Release 17, Release 18, Release 19,
                 Release 20, Release 21]\<rparr>)"
  by (simp add: call_render_ready resize_step_def cleanup_render_targets_def release_def
      emit_def reset_state_def edge_step_same capture_step_skip draw_step_def Let_def
      shown_renderer_def resized_renderer_def armed_renderer_def new_renderer_def)

lemma resized_frame:
  "call_render ((nominal_frame t True)\<lparr>frame_params := nominal_params 300 150\<rparr>)
     (resized_renderer s) =
     (True, \<lparr>self = resized_renderer s, gpu = host_context (Some 50), calls = []\<rparr>)"
  by (simp add: call_render_ready resize_step_same edge_step_same capture_step_skip
      draw_step_def Let_def resized_renderer_def armed_renderer_def new_renderer_def)

section \<open>C1: a capture that fails\<close>

text \<open>
  C1, as the claim states it, fails. Frame 0 sets the intent at time 0. At frame 1, at
  time 1 with a delay of 0.15, the textures are allocated but no render target is bound,
  so the capture fails: the capture is then no longer pending. At frame 2 a render target
  is bound and the intent is still set, and \<open>render\<close> makes no call at all.
\<close>

theorem failed_capture_stays_failed:
  "frame_should_blur (nominal_frame 0 True)
   \<and> delay_at [nominal_frame 0 True,
                (nominal_frame 1 True)\<lparr>frame_host := host_context None\<rparr>,
                nominal_frame 2 True] 1
       \<le> time_at [nominal_frame 0 True,
                   (nominal_frame 1 True)\<lparr>frame_host := host_context None\<rparr>,
                   nominal_frame 2 True] 1
         - time_at [nominal_frame 0 True,
                    (nominal_frame 1 True)\<lparr>frame_host := host_context None\<rparr>,
                    nominal_frame 2 True] 0
   \<and> calls (snd (outcome new_renderer
        [nominal_frame 0 True, (nominal_frame 1 True)\<lparr>frame_host := host_context None\<rparr>,
         nominal_frame 2 True] 1))
       = [CreateTexture2D 200 100, CreateShaderResourceView,
          CreateTexture2D 200 100, CreateRenderTargetView, CreateShaderResourceView,
          CreateTexture2D 200 100, CreateRenderTargetView, CreateShaderResourceView,
          OMGetRenderTargets]
   \<and> \<not> blur_capture_pending_m (self (snd (outcome new_renderer
        [nominal_frame 0 True, (nominal_frame 1 True)\<lparr>frame_host := host_context None\<rparr>,
         nominal_frame 2 True] 1)))
   \<and> om_render_targets (frame_host (nominal_frame 2 True)) = [Some 50]
   \<and> outcome new_renderer
        [nominal_frame 0 True, (nominal_frame 1 True)\<lparr>frame_host := host_context None\<rparr>,
         nominal_frame 2 True] 2
       = (True, \<lparr>self = stalled_renderer 0, gpu = host_context (Some 50), calls = []\<rparr>)"
  by (simp add: outcome_def first_frame unbound_frame stalled_frame delay_at_def time_at_def)

text \<open>
  C1, amended. If the debounce delay has elapsed on a frame that returns true with the
  intent held, and the capture or the texture allocation fails on that frame (nothing
  is processed), then the activation time stamp is not re-stamped, nothing is drawn, and
  the capture is no longer pending: for every following sequence of frames in which the
  caller's intent stays true, no texture is allocated, no capture is attempted and
  nothing is drawn, and the time stamp stays as it was.
\<close>

theorem failed_capture_is_not_retried:
  assumes "frame_should_blur f"
    and "blur_enabled_last_frame_m r" and "blur_capture_pending_m r" and "\<not> blur_processed_m r"
    and "delay_time (frame_params f) \<le> get_time (frame_env f) - blur_enable_time_m r"
    and "fst (call_render f r)"
    and "\<not> blur_processed_m (self (snd (call_render f r)))"
    and "\<forall>g\<in>set gs. frame_should_blur g" and "n < length gs"
  shows "blur_enable_time_m (self (snd (call_render f r))) = blur_enable_time_m r
    \<and> \<not> blur_capture_pending_m (self (snd (call_render f r)))
    \<and> \<not> list_ex is_draw (calls (snd (call_render f r)))
    \<and> \<not> list_ex is_texture_alloc (calls (snd (outcome (self (snd (call_render f r))) gs n)))
    \<and> \<not> list_ex is_capture (calls (snd (outcome (self (snd (call_render f r))) gs n)))
    \<and> \<not> drew (self (snd (call_render f r))) gs n
    \<and> blur_enable_time_m (run (self (snd (call_render f r))) gs) = blur_enable_time_m r
    \<and> \<not> blur_capture_pending_m (run (self (snd (call_render f r))) gs)"
proof -
  let ?r' = "self (snd (call_render f r))"
  note a = attempt_clears_pending [OF assms(1,2,4,5,6)]
  from a assms(7) have st: "stalled ?r'"
    by (simp add: stalled_def)
  from call_render_completed(2) [OF assms(6)] assms(7)
  have nd: "\<not> list_ex is_draw (calls (snd (call_render f r)))"
    by simp
  from stalled_run [OF st assms(8)] have "stalled (run ?r' gs)"
    and "blur_enable_time_m (run ?r' gs) = blur_enable_time_m ?r'"
    by simp_all
  with a nd stalled_outcome [OF st assms(8,9)] show ?thesis
    by (simp add: stalled_def)
qed

theorem failed_capture_is_not_retried_witness:
  "fst (call_render ((nominal_frame 1 True)\<lparr>frame_host := host_context None\<rparr>)
          (armed_renderer 0))
   \<and> \<not> blur_processed_m (self (snd (call_render
          ((nominal_frame 1 True)\<lparr>frame_host := host_context None\<rparr>) (armed_renderer 0))))
   \<and> \<not> blur_capture_pending_m (self (snd (call_render
          ((nominal_frame 1 True)\<lparr>frame_host := host_context None\<rparr>) (armed_renderer 0))))
   \<and> \<not> drew (self (snd (call_render
          ((nominal_frame 1 True)\<lparr>frame_host := host_context None\<rparr>) (armed_renderer 0))))
        [nominal_frame 2 True] 0
   \<and> \<not> list_ex is_capture (calls (snd (outcome (self (snd (call_render
          ((nominal_frame 1 True)\<lparr>frame_host := host_context None\<rparr>) (armed_renderer 0))))
        [nominal_frame 2 True] 0)))"
proof -
  let ?f = "(nominal_frame 1 True)\<lparr>frame_host := host_context None\<rparr>"
  have u: "call_render ?f (armed_renderer 0) =
     (True,
      \<lparr>self = stalled_renderer 0, gpu = host_context None,
        calls = [CreateTexture2D 200 100, CreateShaderResourceView,
                 CreateTexture2D 200 100, CreateRenderTargetView, CreateShaderResourceView,
                 CreateTexture2D 200 100, CreateRenderTargetView, CreateShaderResourceView,
                 OMGetRenderTargets]\<rparr>)"
    by (rule unbound_frame) simp
  have 1: "frame_should_blur ?f" by simp
  have 2: "blur_enabled_last_frame_m (armed_renderer 0)"
    and 3: "blur_capture_pending_m (armed_renderer 0)"
    and 4: "\<not> blur_processed_m (armed_renderer 0)"
    by simp_all
  have 5: "delay_time (frame_params ?f) \<le> get_time (frame_env ?f) - blur_enable_time_m (armed_renderer 0)"
    by simp
  have 6: "fst (call_render ?f (armed_renderer 0))"
    and 7: "\<not> blur_processed_m (self (snd (call_render ?f (armed_renderer 0))))"
    by (simp_all add: u)
  have 8: "\<forall>g\<in>set [nominal_frame 2 True]. frame_should_blur g"
    and 9: "0 < length [nominal_frame 2 True]"
    by simp_all
  from failed_capture_is_not_retried [OF 1 2 3 4 5 6 7 8 9] 6 7 show ?thesis
    by blast
qed

section \<open>C2: a change of window size\<close>

text \<open>
  C2, as the claim states it, fails. Frames 0 and 1 set the intent and, a second later,
  capture and draw at 200 by 100. Frame 2 comes with a window of 300 by 150: the textures
  are released and nothing is drawn, but no capture is pending. At frame 3, a second
  after the resize, with the intent still set, a render target bound and a platform on
  which every call would succeed, \<open>render\<close> makes no call at all: the blur does not
  come back.
\<close>

theorem resize_loses_blur:
  "drew new_renderer
     [nominal_frame 0 True, nominal_frame 1 True,
      (nominal_frame 2 True)\<lparr>frame_params := nominal_params 300 150\<rparr>,
      (nominal_frame 3 True)\<lparr>frame_params := nominal_params 300 150\<rparr>] 1
   \<and> outcome new_renderer
     [nominal_frame 0 True, nominal_frame 1 True,
      (nominal_frame 2 True)\<lparr>frame_params := nominal_params 300 150\<rparr>,
      (nominal_frame 3 True)\<lparr>frame_params := nominal_params 300 150\<rparr>] 2
     = (True,
        \<lparr>self = resized_renderer 0, gpu = host_context (Some 50),
          calls = [Release 14, Release 15, Release 16, Release 17, Release 18, Release 19,
                   Release 20, Release 21]\<rparr>)
   \<and> \<not> blur_capture_pending_m (resized_renderer 0)
   \<and> delay_at
        [nominal_frame 0 True, nominal_frame 1 True,
         (nominal_frame 2 True)\<lparr>frame_params := nominal_params 300 150\<rparr>,
         (nominal_frame 3 True)\<lparr>frame_params := nominal_params 300 150\<rparr>] 3
       \<le> time_at
          [nominal_frame 0 True, nominal_frame 1 True,
           (nominal_frame 2 True)\<lparr>frame_params := nominal_params 300 150\<rparr>,
           (nominal_frame 3 True)\<lparr>frame_params := nominal_params 300 150\<rparr>] 3
         - time_at
          [nominal_frame 0 True, nominal_frame 1 True,
           (nominal_frame 2 True)\<lparr>frame_params := nominal_params 300 150\<rparr>,
           (nominal_frame 3 True)\<lparr>frame_params := nominal_params 300 150\<rparr>] 2
   \<and> outcome new_renderer
     [nominal_frame 0 True, nominal_frame 1 True,
      (nominal_frame 2 True)\<lparr>frame_params := nominal_params 300 150\<rparr>,
      (nominal_frame 3 True)\<lparr>frame_params := nominal_params 300 150\<rparr>] 3
     = (True, \<lparr>self = resized_renderer 0, gpu = host_context (Some 50), calls = []\<rparr>)"
  by (simp add: drew_def outcome_def first_frame second_frame second_frame_drew resize_frame
      resized_frame delay_at_def time_at_def eval_nat_numeral)

lemma background_capture_steps:
  "background_capture_m (self (snd (ensure_pipeline env p w))) = None
   \<or> background_capture_m (self (snd (ensure_pipeline env p w))) = background_capture_m (self w)"
  "background_capture_m (self (resize_step a b w)) = None
   \<or> background_capture_m (self (resize_step a b w)) = background_capture_m (self w)"
  "background_capture_m (self (edge_step sb t w)) = background_capture_m (self w)"
  by (simp_all add: ensure_pipeline_def Let_def split_beta cleanup_all_self resize_step_def
      cleanup_render_targets_self edge_step_def)

text \<open>A frame that returns true and sees a new window size, with the intent held.\<close>

lemma resize_with_intent:
  assumes "frame_should_blur f" and "blur_enabled_last_frame_m r" and "fst (call_render f r)"
    and "width_m r \<noteq> trunc_int (vec_x (window_size (frame_params f)))
         \<or> height_m r \<noteq> trunc_int (vec_y (window_size (frame_params f)))"
  shows "self (snd (call_render f r)) =
     (self (snd (ensure_pipeline (frame_env f) (frame_params f)
                   \<lparr>self = r, gpu = frame_host f, calls = []\<rparr>)))
       \<lparr>background_capture_m := None, background_srv_m := None,
        temp_texture_m := None, temp_rtv_m := None,
        temp_srv_m := None, blur_texture_m := None,
        blur_rtv_m := None, blur_srv_m := None,
        background_captured_m := False, blur_processed_m := False,
        blur_capture_pending_m := False,
        width_m := trunc_int (vec_x (window_size (frame_params f))),
        height_m := trunc_int (vec_y (window_size (frame_params f))),
        blur_enabled_last_frame_m := True\<rparr>"
    and "\<not> list_ex is_draw (calls (snd (call_render f r)))"
proof -
  let ?sb = "frame_should_blur f" and ?p = "frame_params f" and ?env = "frame_env f"
  let ?a = "trunc_int (vec_x (window_size ?p))" and ?b = "trunc_int (vec_y (window_size ?p))"
  let ?w1 = "snd (ensure_pipeline ?env ?p \<lparr>self = r, gpu = frame_host f, calls = []\<rparr>)"
  let ?w2 = "resize_step ?a ?b ?w1"
  let ?w3 = "edge_step ?sb (get_time ?env) ?w2"
  from assms(3) have s: "snd (call_render f r) =
      draw_step ?p ?sb (capture_step ?env ?p ?sb ?a ?b ?w3)"
    by - (rule call_render_cases [of f r], simp_all)
  from assms(4) have "width_m (self ?w1) \<noteq> ?a \<or> height_m (self ?w1) \<noteq> ?b"
    by simp
  note w2 = resize_step_changed [OF this]
  from assms(1,2) have e: "?w3 = ?w2" by (simp add: edge_step_same)
  have c: "capture_step ?env ?p ?sb ?a ?b ?w2 = ?w2"
    by (simp add: capture_step_skip w2)
  from e c have "capture_step ?env ?p ?sb ?a ?b ?w3 = ?w2" by simp
  with s have s': "snd (call_render f r) = draw_step ?p ?sb ?w2" by simp
  show "self (snd (call_render f r)) =
     (self ?w1)
       \<lparr>background_capture_m := None, background_srv_m := None,
        temp_texture_m := None, temp_rtv_m := None,
        temp_srv_m := None, blur_texture_m := None,
        blur_rtv_m := None, blur_srv_m := None,
        background_captured_m := False, blur_processed_m := False,
        blur_capture_pending_m := False, width_m := ?a, height_m := ?b,
        blur_enabled_last_frame_m := True\<rparr>"
    using assms(1) by (simp add: s' w2)
  show "\<not> list_ex is_draw (calls (snd (call_render f r)))"
    by (simp add: s' w2)
qed

text \<open>A frame that returns true with the intent cleared.\<close>

lemma frame_without_intent:
  assumes "\<not> frame_should_blur f" and "fst (call_render f r)"
  shows "\<not> blur_enabled_last_frame_m (self (snd (call_render f r)))"
    and "background_capture_m (self (snd (call_render f r))) = None
         \<or> background_capture_m (self (snd (call_render f r))) = background_capture_m r"
proof -
  let ?sb = "frame_should_blur f" and ?p = "frame_params f" and ?env = "frame_env f"
  let ?a = "trunc_int (vec_x (window_size ?p))" and ?b = "trunc_int (vec_y (window_size ?p))"
  let ?w0 = "\<lparr>self = r, gpu = frame_host f, calls = []\<rparr>"
  let ?w1 = "snd (ensure_pipeline ?env ?p ?w0)"
  let ?w2 = "resize_step ?a ?b ?w1"
  let ?w3 = "edge_step ?sb (get_time ?env) ?w2"
  from assms(2) have s: "snd (call_render f r) =
      draw_step ?p ?sb (capture_step ?env ?p ?sb ?a ?b ?w3)"
    by - (rule call_render_cases [of f r], simp_all)
  from assms(1) have c: "capture_step ?env ?p ?sb ?a ?b ?w3 = ?w3"
    by (simp add: capture_step_skip)
  from call_render_completed(1) [OF assms(2)] assms(1)
  show "\<not> blur_enabled_last_frame_m (self (snd (call_render f r)))"
    by simp
  have "background_capture_m (self (snd (call_render f r))) = background_capture_m (self ?w2)"
    by (simp add: s c background_capture_steps(3))
  with background_capture_steps(1) [of ?env ?p ?w0] background_capture_steps(2) [of ?a ?b ?w1]
  show "background_capture_m (self (snd (call_render f r))) = None
         \<or> background_capture_m (self (snd (call_render f r))) = background_capture_m r"
    by auto
qed

text \<open>A frame that returns true and sets the intent anew, before the delay has elapsed.\<close>

lemma frame_arms_capture:
  assumes "frame_should_blur f" and "\<not> blur_enabled_last_frame_m r" and "fst (call_render f r)"
    and "0 < delay_time (frame_params f)"
  shows "blur_enabled_last_frame_m (self (snd (call_render f r)))"
    and "blur_capture_pending_m (self (snd (call_render f r)))"
    and "\<not> blur_processed_m (self (snd (call_render f r)))"
    and "blur_enable_time_m (self (snd (call_render f r))) = get_time (frame_env f)"
    and "width_m (self (snd (call_render f r))) = trunc_int (vec_x (window_size (frame_params f)))"
    and "height_m (self (snd (call_render f r))) = trunc_int (vec_y (window_size (frame_params f)))"
    and "background_capture_m (self (snd (call_render f r))) = None
         \<or> background_capture_m (self (snd (call_render f r))) = background_capture_m r"
proof -
  let ?sb = "frame_should_blur f" and ?p = "frame_params f" and ?env = "frame_env f"
  let ?a = "trunc_int (vec_x (window_size ?p))" and ?b = "trunc_int (vec_y (window_size ?p))"
  let ?w0 = "\<lparr>self = r, gpu = frame_host f, calls = []\<rparr>"
  let ?w1 = "snd (ensure_pipeline ?env ?p ?w0)"
  let ?w2 = "resize_step ?a ?b ?w1"
  let ?w3 = "edge_step ?sb (get_time ?env) ?w2"
  from assms(3) have s: "snd (call_render f r) =
      draw_step ?p ?sb (capture_step ?env ?p ?sb ?a ?b ?w3)"
    by - (rule call_render_cases [of f r], simp_all)
  have 3: "blur_capture_pending_m (self ?w3)" "\<not> blur_processed_m (self ?w3)"
    "blur_enable_time_m (self ?w3) = get_time ?env"
    using assms(1,2) by simp_all
  from 3(3) assms(4) have c: "capture_step ?env ?p ?sb ?a ?b ?w3 = ?w3"
    by (simp add: capture_step_skip)
  with s have s': "snd (call_render f r) = draw_step ?p ?sb ?w3" by simp
  from 3 assms(1) show "blur_enabled_last_frame_m (self (snd (call_render f r)))"
    and "blur_capture_pending_m (self (snd (call_render f r)))"
    and "\<not> blur_processed_m (self (snd (call_render f r)))"
    and "blur_enable_time_m (self (snd (call_render f r))) = get_time (frame_env f)"
    and "width_m (self (snd (call_render f r))) = trunc_int (vec_x (window_size (frame_params f)))"
    and "height_m (self (snd (call_render f r))) = trunc_int (vec_y (window_size (frame_params f)))"
    by (simp_all add: s')
  have "background_capture_m (self (snd (call_render f r))) = background_capture_m (self ?w2)"
    by (simp add: s' background_capture_steps(3))
  with background_capture_steps(1) [of ?env ?p ?w0] background_capture_steps(2) [of ?a ?b ?w1]
  show "background_capture_m (self (snd (call_render f r))) = None
         \<or> background_capture_m (self (snd (call_render f r))) = background_capture_m r"
    by auto
qed

text \<open>
  A frame that returns true with a capture pending, the delay elapsed, no texture held,
  the window size of the renderer, a bound render target and a platform that creates the
  textures: it captures, processes and draws the final texture at that size.
\<close>

lemma frame_captures_and_draws:
  assumes "frame_should_blur f" and "blur_enabled_last_frame_m r" and "fst (call_render f r)"
    and "blur_capture_pending_m r" and "\<not> blur_processed_m r"
    and "delay_time (frame_params f) \<le> get_time (frame_env f) - blur_enable_time_m r"
    and "background_capture_m r = None"
    and "width_m r = trunc_int (vec_x (window_size (frame_params f)))"
    and "height_m r = trunc_int (vec_y (window_size (frame_params f)))"
    and "textures_succeed (frame_env f)" and "render_target_bound (frame_host f)"
    and "get_resource (frame_env f) \<noteq> None"
  shows "list_ex is_draw (calls (snd (call_render f r)))"
    and "blur_srv_m (self (snd (call_render f r))) = create_blur_srv (frame_env f)"
    and "blur_processed_m (self (snd (call_render f r)))"
proof -
  let ?sb = "frame_should_blur f" and ?p = "frame_params f" and ?env = "frame_env f"
  let ?a = "trunc_int (vec_x (window_size ?p))" and ?b = "trunc_int (vec_y (window_size ?p))"
  let ?w0 = "\<lparr>self = r, gpu = frame_host f, calls = []\<rparr>"
  let ?w1 = "snd (ensure_pipeline ?env ?p ?w0)"
  let ?w2 = "resize_step ?a ?b ?w1"
  let ?w3 = "edge_step ?sb (get_time ?env) ?w2"
  let ?w4 = "capture_step ?env ?p ?sb ?a ?b ?w1"
  from assms(3) have s: "snd (call_render f r) =
      draw_step ?p ?sb (capture_step ?env ?p ?sb ?a ?b ?w3)"
    by - (rule call_render_cases [of f r], simp_all)
  from assms(8,9) have 2: "?w2 = ?w1" by (simp add: resize_step_same)
  from assms(1,2) have 3: "?w3 = ?w2" by (simp add: edge_step_same)
  from 2 3 s have s': "snd (call_render f r) = draw_step ?p ?sb ?w4" by simp
  from assms(7) background_capture_steps(1) [of ?env ?p ?w0]
  have bg: "background_capture_m (self ?w1) = None" by auto
  from assms(11) have rt: "fst (om_get_render_targets ?w1) \<noteq> None"
    by (simp add: render_target_bound_def om_get_render_targets_def split: list.splits)
  from assms(4,5,6) have pre: "blur_capture_pending_m (self ?w1)" "\<not> blur_processed_m (self ?w1)"
    "delay_time ?p \<le> get_time ?env - blur_enable_time_m (self ?w1)"
    by simp_all
  note c = capture_step_success [OF assms(1) pre bg assms(10) rt assms(12), of ?a ?b]
  from assms(10) have v: "create_blur_srv ?env \<noteq> None"
    by (simp add: textures_succeed_def)
  have q: "blur_srv_m (self ?w4) = create_blur_srv ?env" and p: "blur_processed_m (self ?w4)"
    by (simp_all add: c)
  from q show "blur_srv_m (self (snd (call_render f r))) = create_blur_srv (frame_env f)"
    by (simp add: s')
  from p show "blur_processed_m (self (snd (call_render f r)))"
    by (simp add: s')
  from p q v assms(1) show "list_ex is_draw (calls (snd (call_render f r)))"
    by (simp add: s' del: not_None_eq)
qed

lemma stalled_keeps_no_texture:
  assumes "stalled r" and "frame_should_blur f" and "background_capture_m r = None"
  shows "background_capture_m (self (snd (call_render f r))) = None"
proof (cases "fst (call_render f r)")
  case False
  let ?w0 = "\<lparr>self = r, gpu = frame_host f, calls = []\<rparr>"
  from False have "snd (call_render f r) = ?w0
       \<or> snd (call_render f r) = snd (ensure_pipeline (frame_env f) (frame_params f) ?w0)"
    by - (rule call_render_cases [of f r], simp_all)
  with assms(3) background_capture_steps(1) [of "frame_env f" "frame_params f" ?w0]
  show ?thesis by auto
next
  case True
  let ?sb = "frame_should_blur f" and ?p = "frame_params f" and ?env = "frame_env f"
  let ?a = "trunc_int (vec_x (window_size ?p))" and ?b = "trunc_int (vec_y (window_size ?p))"
  let ?w0 = "\<lparr>self = r, gpu = frame_host f, calls = []\<rparr>"
  let ?w1 = "snd (ensure_pipeline ?env ?p ?w0)"
  let ?w2 = "resize_step ?a ?b ?w1"
  let ?w3 = "edge_step ?sb (get_time ?env) ?w2"
  from True have s: "snd (call_render f r) =
      draw_step ?p ?sb (capture_step ?env ?p ?sb ?a ?b ?w3)"
    by - (rule call_render_cases [of f r], simp_all)
  from assms(1) have "\<not> blur_capture_pending_m (self ?w1)"
    by (simp add: stalled_def)
  with resize_step_flags(2) [of ?a ?b ?w1] have 2: "\<not> blur_capture_pending_m (self ?w2)"
    by auto
  from assms(1,2) have e: "?w3 = ?w2" by (simp add: edge_step_same stalled_def)
  from 2 have c: "capture_step ?env ?p ?sb ?a ?b ?w2 = ?w2" by (simp add: capture_step_skip)
  from e c have "capture_step ?env ?p ?sb ?a ?b ?w3 = ?w2" by simp
  with s have "background_capture_m (self (snd (call_render f r))) = background_capture_m (self ?w2)"
    by simp
  with assms(3) background_capture_steps(1) [of ?env ?p ?w0]
    background_capture_steps(2) [of ?a ?b ?w1]
  show ?thesis by auto
qed

lemma stalled_run_no_texture:
  "stalled r \<Longrightarrow> background_capture_m r = None \<Longrightarrow> \<forall>g\<in>set gs. frame_should_blur g \<Longrightarrow>
   background_capture_m (run r gs) = None"
proof (induction gs arbitrary: r)
  case Nil
  then show ?case by simp
next
  case (Cons g gs)
  from Cons.prems have sb: "frame_should_blur g" and rest: "\<forall>g\<in>set gs. frame_should_blur g"
    by simp_all
  from stalled_step(1) [OF Cons.prems(1) sb] stalled_keeps_no_texture [OF Cons.prems(1) sb Cons.prems(2)]
    Cons.IH [OF _ _ rest]
  show ?case by simp
qed

text \<open>
  From a renderer that holds no texture: a frame with the intent cleared, a frame with
  the intent set and a positive delay, and a frame with the intent set on which the
  delay since the second has elapsed, at the window size of the second, with a render
  target bound and a platform that creates the textures. All three return true. The third
  captures and draws.
\<close>

lemma retoggle_draws:
  assumes "background_capture_m r = None"
    and "\<not> frame_should_blur f1" and "frame_should_blur f2" and "frame_should_blur f3"
    and "completed r [f1, f2, f3] 0" and "completed r [f1, f2, f3] 1"
    and "completed r [f1, f2, f3] 2"
    and "0 < delay_time (frame_params f2)"
    and "delay_time (frame_params f3) \<le> get_time (frame_env f3) - get_time (frame_env f2)"
    and "trunc_int (vec_x (window_size (frame_params f3)))
           = trunc_int (vec_x (window_size (frame_params f2)))"
    and "trunc_int (vec_y (window_size (frame_params f3)))
           = trunc_int (vec_y (window_size (frame_params f2)))"
    and "textures_succeed (frame_env f3)" and "render_target_bound (frame_host f3)"
    and "get_resource (frame_env f3) \<noteq> None"
  shows "drew r [f1, f2, f3] 2"
    and "blur_srv_m (run r [f1, f2, f3]) = create_blur_srv (frame_env f3)"
    and "width_m (run r [f1, f2, f3]) = trunc_int (vec_x (window_size (frame_params f3)))"
    and "height_m (run r [f1, f2, f3]) = trunc_int (vec_y (window_size (frame_params f3)))"
proof -
  let ?r1 = "self (snd (call_render f1 r))"
  let ?r2 = "self (snd (call_render f2 ?r1))"
  let ?r3 = "self (snd (call_render f3 ?r2))"
  from assms(5) have c1: "fst (call_render f1 r)"
    by (simp add: completed_def outcome_def)
  from assms(6) have c2: "fst (call_render f2 ?r1)"
    by (simp add: completed_def outcome_def)
  from assms(7) have c3: "fst (call_render f3 ?r2)"
    by (simp add: completed_def outcome_def eval_nat_numeral)
  note off = frame_without_intent [OF assms(2) c1]
  from off(2) assms(1) have bg1: "background_capture_m ?r1 = None" by auto
  note on = frame_arms_capture [OF assms(3) off(1) c2 assms(8)]
  from on(7) bg1 have bg2: "background_capture_m ?r2 = None" by auto
  from assms(9) on(4) have d: "delay_time (frame_params f3)
      \<le> get_time (frame_env f3) - blur_enable_time_m ?r2"
    by simp
  from on(5) assms(10) have w: "width_m ?r2 = trunc_int (vec_x (window_size (frame_params f3)))"
    by simp
  from on(6) assms(11) have h: "height_m ?r2 = trunc_int (vec_y (window_size (frame_params f3)))"
    by simp
  note cap = frame_captures_and_draws
    [OF assms(4) on(1) c3 on(2) on(3) d bg2 w h assms(12) assms(13) assms(14)]
  from cap(1) show "drew r [f1, f2, f3] 2"
    by (simp add: drew_def outcome_def eval_nat_numeral)
  from cap(2) show "blur_srv_m (run r [f1, f2, f3]) = create_blur_srv (frame_env f3)"
    by simp
  have "width_m ?r3 = width_m ?r2 \<and> height_m ?r3 = height_m ?r2"
  proof -
    let ?p = "frame_params f3" and ?env = "frame_env f3"
    let ?a = "trunc_int (vec_x (window_size ?p))" and ?b = "trunc_int (vec_y (window_size ?p))"
    let ?w1 = "snd (ensure_pipeline ?env ?p \<lparr>self = ?r2, gpu = frame_host f3, calls = []\<rparr>)"
    from c3 have s: "snd (call_render f3 ?r2) =
        draw_step ?p (frame_should_blur f3)
          (capture_step ?env ?p (frame_should_blur f3) ?a ?b
             (edge_step (frame_should_blur f3) (get_time ?env) (resize_step ?a ?b ?w1)))"
      by - (rule call_render_cases [of f3 ?r2], simp_all)
    show ?thesis by (simp add: s w h)
  qed
  with w h show "width_m (run r [f1, f2, f3]) = trunc_int (vec_x (window_size (frame_params f3)))"
    and "height_m (run r [f1, f2, f3]) = trunc_int (vec_y (window_size (frame_params f3)))"
    by simp_all
qed

text \<open>
  C2, amended. Let the window width or height change on a frame that returns true while
  the blur is shown and the intent is held. On that frame the blur is no longer drawn,
  the textures are released, the size is updated and the renderer is left with no
  capture pending. In every following sequence of frames in which the intent stays true
  no texture is allocated, no capture is attempted and the blur is not drawn. When the
  three calls after such a sequence return true, the first with the intent cleared, the
  second with the intent set and a positive delay, the third with the intent set once the
  delay since the second has elapsed, at the window size of the second, with a render
  target bound and the textures created, the third call draws the blur at that size.
\<close>

theorem resize_needs_new_activation:
  assumes "blur_processed_m r" and "blur_enabled_last_frame_m r"
    and "frame_should_blur f" and "fst (call_render f r)"
    and "width_m r \<noteq> trunc_int (vec_x (window_size (frame_params f)))
         \<or> height_m r \<noteq> trunc_int (vec_y (window_size (frame_params f)))"
    and "\<forall>g\<in>set gs. frame_should_blur g"
  shows "\<not> list_ex is_draw (calls (snd (call_render f r)))
    \<and> \<not> blur_capture_pending_m (self (snd (call_render f r)))
    \<and> \<not> blur_processed_m (self (snd (call_render f r)))
    \<and> \<not> background_captured_m (self (snd (call_render f r)))
    \<and> background_capture_m (self (snd (call_render f r))) = None
    \<and> blur_srv_m (self (snd (call_render f r))) = None
    \<and> width_m (self (snd (call_render f r))) = trunc_int (vec_x (window_size (frame_params f)))
    \<and> height_m (self (snd (call_render f r))) = trunc_int (vec_y (window_size (frame_params f)))
    \<and> (\<forall>n<length gs.
          \<not> drew (self (snd (call_render f r))) gs n
          \<and> \<not> list_ex is_capture (calls (snd (outcome (self (snd (call_render f r))) gs n)))
          \<and> \<not> list_ex is_texture_alloc
                (calls (snd (outcome (self (snd (call_render f r))) gs n))))
    \<and> (\<not> frame_should_blur f1 \<and> frame_should_blur f2 \<and> frame_should_blur f3
        \<and> completed (run (self (snd (call_render f r))) gs) [f1, f2, f3] 0
        \<and> completed (run (self (snd (call_render f r))) gs) [f1, f2, f3] 1
        \<and> completed (run (self (snd (call_render f r))) gs) [f1, f2, f3] 2
        \<and> 0 < delay_time (frame_params f2)
        \<and> delay_time (frame_params f3) \<le> get_time (frame_env f3) - get_time (frame_env f2)
        \<and> trunc_int (vec_x (window_size (frame_params f3)))
             = trunc_int (vec_x (window_size (frame_params f2)))
        \<and> trunc_int (vec_y (window_size (frame_params f3)))
             = trunc_int (vec_y (window_size (frame_params f2)))
        \<and> textures_succeed (frame_env f3) \<and> render_target_bound (frame_host f3)
        \<and> get_resource (frame_env f3) \<noteq> None
        \<longrightarrow>
          drew (run (self (snd (call_render f r))) gs) [f1, f2, f3] 2
          \<and> blur_srv_m (run (run (self (snd (call_render f r))) gs) [f1, f2, f3])
              = create_blur_srv (frame_env f3)
          \<and> width_m (run (run (self (snd (call_render f r))) gs) [f1, f2, f3])
              = trunc_int (vec_x (window_size (frame_params f3)))
          \<and> height_m (run (run (self (snd (call_render f r))) gs) [f1, f2, f3])
              = trunc_int (vec_y (window_size (frame_params f3))))"
proof -
  let ?r' = "self (snd (call_render f r))"
  note rs = resize_with_intent [OF assms(3,2,4,5)]
  have now: "\<not> blur_capture_pending_m ?r'" "\<not> blur_processed_m ?r'"
    "\<not> background_captured_m ?r'" "background_capture_m ?r' = None" "blur_srv_m ?r' = None"
    "width_m ?r' = trunc_int (vec_x (window_size (frame_params f)))"
    "height_m ?r' = trunc_int (vec_y (window_size (frame_params f)))"
    "blur_enabled_last_frame_m ?r'"
    by (simp_all add: rs(1))
  then have st: "stalled ?r'" by (simp add: stalled_def)
  have later: "\<not> drew ?r' gs n
      \<and> \<not> list_ex is_capture (calls (snd (outcome ?r' gs n)))
      \<and> \<not> list_ex is_texture_alloc (calls (snd (outcome ?r' gs n)))"
    if "n < length gs" for n
    using stalled_outcome [OF st assms(6) that] by simp
  have bg: "background_capture_m (run ?r' gs) = None"
    by (rule stalled_run_no_texture [OF st now(4) assms(6)])
  note again = retoggle_draws [OF bg, of f1 f2 f3]
  show ?thesis
    using rs(2) now later again by blast
qed

theorem resize_needs_new_activation_witness:
  "fst (call_render ((nominal_frame 2 True)\<lparr>frame_params := nominal_params 300 150\<rparr>)
          (shown_renderer 0))
   \<and> \<not> list_ex is_draw (calls (snd (call_render
          ((nominal_frame 2 True)\<lparr>frame_params := nominal_params 300 150\<rparr>)
          (shown_renderer 0))))
   \<and> \<not> drew (self (snd (call_render
          ((nominal_frame 2 True)\<lparr>frame_params := nominal_params 300 150\<rparr>)
          (shown_renderer 0))))
        [(nominal_frame 3 True)\<lparr>frame_params := nominal_params 300 150\<rparr>] 0
   \<and> drew (run (self (snd (call_render
          ((nominal_frame 2 True)\<lparr>frame_params := nominal_params 300 150\<rparr>)
          (shown_renderer 0))))
          [(nominal_frame 3 True)\<lparr>frame_params := nominal_params 300 150\<rparr>])
        [(nominal_frame 4 False)\<lparr>frame_params := nominal_params 300 150\<rparr>,
         (nominal_frame 5 True)\<lparr>frame_params := nominal_params 300 150\<rparr>,
         (nominal_frame 6 True)\<lparr>frame_params := nominal_params 300 150\<rparr>] 2
   \<and> width_m (run (run (self (snd (call_render
          ((nominal_frame 2 True)\<lparr>frame_params := nominal_params 300 150\<rparr>)
          (shown_renderer 0))))
          [(nominal_frame 3 True)\<lparr>frame_params := nominal_params 300 150\<rparr>])
        [(nominal_frame 4 False)\<lparr>frame_params := nominal_params 300 150\<rparr>,
         (nominal_frame 5 True)\<lparr>frame_params := nominal_params 300 150\<rparr>,
         (nominal_frame 6 True)\<lparr>frame_params := nominal_params 300 150\<rparr>]) = 300"
proof -
  let ?wide = "\<lambda>t sb. (nominal_frame t sb)\<lparr>frame_params := nominal_params 300 150\<rparr>"
  let ?r' = "self (snd (call_render (?wide 2 True) (shown_renderer 0)))"
  let ?gs = "[?wide 3 True]"
  let ?fs = "[?wide 4 False, ?wide 5 True, ?wide 6 True]"
  have wf: "well_formed_request (frame_params (?wide t sb))"
    and ps: "pipeline_succeeds (frame_env (?wide t sb))" for t sb
    by (simp_all add: well_formed_request_def)
  have 1: "blur_processed_m (shown_renderer 0)" and 2: "blur_enabled_last_frame_m (shown_renderer 0)"
    and 3: "frame_should_blur (?wide 2 True)"
    by simp_all
  have 4: "fst (call_render (?wide 2 True) (shown_renderer 0))"
    by (rule call_render_well_formed [OF wf ps])
  have 5: "width_m (shown_renderer 0) \<noteq> trunc_int (vec_x (window_size (frame_params (?wide 2 True))))
      \<or> height_m (shown_renderer 0) \<noteq> trunc_int (vec_y (window_size (frame_params (?wide 2 True))))"
    by simp
  have 6: "\<forall>g\<in>set ?gs. frame_should_blur g" by simp
  have c: "completed (run ?r' ?gs) ?fs 0" "completed (run ?r' ?gs) ?fs 1"
    "completed (run ?r' ?gs) ?fs 2"
    unfolding completed_def outcome_def
    by (rule call_render_well_formed; simp add: well_formed_request_def)+
  have side: "\<not> frame_should_blur (?wide 4 False)" "frame_should_blur (?wide 5 True)"
    "frame_should_blur (?wide 6 True)"
    "0 < delay_time (frame_params (?wide 5 True))"
    "delay_time (frame_params (?wide 6 True))
       \<le> get_time (frame_env (?wide 6 True)) - get_time (frame_env (?wide 5 True))"
    "trunc_int (vec_x (window_size (frame_params (?wide 6 True))))
       = trunc_int (vec_x (window_size (frame_params (?wide 5 True))))"
    "trunc_int (vec_y (window_size (frame_params (?wide 6 True))))
       = trunc_int (vec_y (window_size (frame_params (?wide 5 True))))"
    "textures_succeed (frame_env (?wide 6 True))"
    "render_target_bound (frame_host (?wide 6 True))"
    "get_resource (frame_env (?wide 6 True)) \<noteq> None"
    by (simp_all add: render_target_bound_def)
  have n: "0 < length ?gs" by simp
  from resize_needs_new_activation
    [OF 1 2 3 4 5 6, of "?wide 4 False" "?wide 5 True" "?wide 6 True"] c side n 4
  have "\<not> list_ex is_draw (calls (snd (call_render (?wide 2 True) (shown_renderer 0))))
    \<and> \<not> drew ?r' ?gs 0
    \<and> drew (run ?r' ?gs) ?fs 2
    \<and> width_m (run (run ?r' ?gs) ?fs)
        = trunc_int (vec_x (window_size (frame_params (?wide 6 True))))"
    by blast
  with 4 show ?thesis by simp
qed

section \<open>C3: the delay between activation and the first draw\<close>



section \<open>C4: calls without intent\<close>

text \<open>
  C4. In a sequence of calls of \<open>render\<close> with \<open>should_blur\<close> false on every call,
  whatever the state of the renderer at the start, no call appends a draw command to the
  draw list and no call creates a texture or a view of one; and every well-formed call
  returns true. A call is well-formed when the request passes the handle and size
  checks and the platform does not fail the creation of the pipeline in that frame
  (a failed initialisation is reported by false).
\<close>

theorem never_blur_never_draws:
  assumes "\<forall>f\<in>set fs. \<not> frame_should_blur f" and "n < length fs"
  shows "\<not> drew r fs n
    \<and> \<not> list_ex is_texture_alloc (calls (snd (outcome r fs n)))
    \<and> (well_formed_request (frame_params (fs ! n)) \<and> pipeline_succeeds (frame_env (fs ! n))
         \<longrightarrow> completed r fs n)"
proof -
  from assms have "\<not> frame_should_blur (fs ! n)" by simp
  then show ?thesis
    by (simp add: drew_def completed_def outcome_def call_render_no_blur call_render_well_formed)
qed

theorem never_blur_never_draws_witness:
  "\<not> frame_should_blur (nominal_frame 0 False) \<and> \<not> frame_should_blur (nominal_frame 1 False)
   \<and> well_formed_request (frame_params ([nominal_frame 0 False, nominal_frame 1 False] ! 1))
   \<and> pipeline_succeeds (frame_env ([nominal_frame 0 False, nominal_frame 1 False] ! 1))
   \<and> \<not> drew new_renderer [nominal_frame 0 False, nominal_frame 1 False] 1
   \<and> \<not> list_ex is_texture_alloc
         (calls (snd (outcome new_renderer [nominal_frame 0 False, nominal_frame 1 False] 1)))
   \<and> completed new_renderer [nominal_frame 0 False, nominal_frame 1 False] 1"
  using never_blur_never_draws [of "[nominal_frame 0 False, nominal_frame 1 False]" 1 new_renderer]
  by (simp add: well_formed_request_def)

section \<open>C5: degenerate requests\<close>

text \<open>
  C5, as the claim states it, fails: on a new renderer a request with a device, a draw
  list and a window of size 0 by 0 is rejected only after the pipeline has been
  initialised, with three shader compilations and nine creation calls.
\<close>

theorem zero_size_issues_gpu_calls:
  "trunc_int (vec_x (window_size (nominal_params 0 0))) \<le> 0
   \<and> call_render
        \<lparr>frame_env = nominal_env 0, frame_params = nominal_params 0 0,
          frame_should_blur = False, frame_host = host_context (Some 50)\<rparr> new_renderer
       = (False,
          \<lparr>self = new_renderer\<lparr>device_m := Some 100, context_m := Some 1,
                   vertex_shader_m := Some 5, pixel_shader_horizontal_m := Some 6,
                   pixel_shader_vertical_m := Some 7, vertex_buffer_m := Some 9,
                   constant_buffer_m := Some 10, input_layout_m := Some 8,
                   sampler_state_m := Some 11, blend_state_m := Some 12,
                   rasterizer_state_m := Some 13, initialized_m := True\<rparr>,
            gpu = host_context (Some 50),
            calls = [GetImmediateContext, D3DCompile Vertex_shader,
                     D3DCompile Horizontal_blur, D3DCompile Vertical_blur, CreateVertexShader,
                     CreatePixelShader Horizontal_blur, CreatePixelShader Vertical_blur,
                     CreateInputLayout, Release 2, Release 3, Release 4,
                     CreateBuffer Vertex_buffer, CreateBuffer Constant_buffer,
                     CreateSamplerState, CreateBlendState, CreateRasterizerState]\<rparr>)"
  by (simp add: call_render_def render_def render_frame_bad_size
      ensure_pipeline_def initialize_shaders_def initialize_render_states_def cleanup_all_def
      cleanup_render_targets_def new_renderer_def release_def emit_def Let_def)

text \<open>
  C5, amended. A call whose request lacks the device or the draw list returns false at
  once: no call is made and nothing changes. A call whose window width or height
  truncates to an integer at most 0 returns false after the pipeline step: when the
  renderer is already initialised for the device no call is made and nothing changes;
  otherwise the calls made are those of releasing what is held and initialising the
  pipeline. In neither case is a texture created, the context's bindings changed, the
  background captured, a draw command issued, or the activation state touched.
\<close>

theorem degenerate_request_rejected:
  "(device (frame_params f) = None \<or> draw_list (frame_params f) = None \<longrightarrow>
      call_render f r = (False, \<lparr>self = r, gpu = frame_host f, calls = []\<rparr>))
   \<and> (trunc_int (vec_x (window_size (frame_params f))) \<le> 0
        \<or> trunc_int (vec_y (window_size (frame_params f))) \<le> 0 \<longrightarrow>
      \<not> fst (call_render f r)
      \<and> (initialized_m r \<and> device_m r = device (frame_params f) \<longrightarrow>
           call_render f r = (False, \<lparr>self = r, gpu = frame_host f, calls = []\<rparr>))
      \<and> list_all is_pipeline_call (calls (snd (call_render f r)))
      \<and> gpu (snd (call_render f r)) = frame_host f
      \<and> background_captured_m (self (snd (call_render f r))) = background_captured_m r
      \<and> blur_processed_m (self (snd (call_render f r))) = blur_processed_m r
      \<and> blur_capture_pending_m (self (snd (call_render f r))) = blur_capture_pending_m r
      \<and> blur_enabled_last_frame_m (self (snd (call_render f r))) = blur_enabled_last_frame_m r
      \<and> blur_enable_time_m (self (snd (call_render f r))) = blur_enable_time_m r)"
proof -
  let ?w = "\<lparr>self = r, gpu = frame_host f, calls = []\<rparr>"
  let ?p = "frame_params f"
  have handles: "call_render f r = (False, ?w)" if "device ?p = None \<or> draw_list ?p = None"
    using that by (simp add: call_render_def render_reject)
  have size: "call_render f r =
      (False, if device ?p = None \<or> draw_list ?p = None then ?w
              else snd (ensure_pipeline (frame_env f) ?p ?w))"
    if "trunc_int (vec_x (window_size ?p)) \<le> 0 \<or> trunc_int (vec_y (window_size ?p)) \<le> 0"
    using that
    by (cases "device ?p = None \<or> draw_list ?p = None")
      (auto simp add: call_render_def render_reject render_accept render_frame_bad_size)
  show ?thesis
    using handles
    by (auto simp add: size ensure_pipeline_pipeline_calls ensure_pipeline_ready)
qed

theorem degenerate_request_rejected_witness:
  "call_render \<lparr>frame_env = nominal_env 0,
                 frame_params = (nominal_params 200 100)\<lparr>draw_list := None\<rparr>,
                 frame_should_blur = True, frame_host = host_context (Some 50)\<rparr> new_renderer
     = (False, \<lparr>self = new_renderer, gpu = host_context (Some 50), calls = []\<rparr>)
   \<and> call_render \<lparr>frame_env = nominal_env 1, frame_params = nominal_params 200 0,
                 frame_should_blur = True, frame_host = host_context (Some 50)\<rparr>
        (armed_renderer 0)
     = (False, \<lparr>self = armed_renderer 0, gpu = host_context (Some 50), calls = []\<rparr>)"
  using degenerate_request_rejected
    [of "\<lparr>frame_env = nominal_env 0,
           frame_params = (nominal_params 200 100)\<lparr>draw_list := None\<rparr>,
           frame_should_blur = True, frame_host = host_context (Some 50)\<rparr>" new_renderer]
    degenerate_request_rejected
    [of "\<lparr>frame_env = nominal_env 1, frame_params = nominal_params 200 0,
           frame_should_blur = True, frame_host = host_context (Some 50)\<rparr>"
        "armed_renderer 0"]
  by (simp add: nominal_params_def)

section \<open>C6: a failed allocation leaves a partial texture set\<close>

text \<open>
  Frame by frame, the sequence \<open>partial_set_frames\<close>: the failed allocation, the frame
  without intent, the new activation, the capture frame and the frame after it.
\<close>

lemma partial_frame:
  "1 \<le> t - s \<Longrightarrow>
   call_render ((nominal_frame t True)\<lparr>frame_env := (nominal_env t)\<lparr>create_temp_texture := None\<rparr>\<rparr>)
     (armed_renderer s) =
     (True,
      \<lparr>self = partial_renderer s, gpu = host_context (Some 50),
        calls = [CreateTexture2D 200 100, CreateShaderResourceView, CreateTexture2D 200 100]\<rparr>)"
  by (simp add: call_render_ready resize_step_same edge_step_same capture_step_def
      ensure_render_targets_def create_texture_def cleanup_render_targets_def release_def
      emit_def draw_step_def Let_def partial_renderer_def armed_renderer_def new_renderer_def
      nominal_env_def)

lemma partial_renderer_simps [simp]:
  "initialized_m (partial_renderer t)" "device_m (partial_renderer t) = Some 100"
  "width_m (partial_renderer t) = 200" "height_m (partial_renderer t) = 100"
  "blur_enabled_last_frame_m (partial_renderer t)"
  "blur_enable_time_m (partial_renderer t) = t"
  "\<not> blur_capture_pending_m (partial_renderer t)" "\<not> blur_processed_m (partial_renderer t)"
  by (simp_all add: partial_renderer_def armed_renderer_def new_renderer_def)

lemma partial_off_frame:
  "call_render (nominal_frame t False) (partial_renderer s) =
     (True,
      \<lparr>self = (partial_renderer s)\<lparr>blur_enabled_last_frame_m := False\<rparr>,
        gpu = host_context (Some 50), calls = []\<rparr>)"
  by (simp add: call_render_ready resize_step_same edge_step_def reset_state_def
      capture_step_skip draw_step_def Let_def partial_renderer_def armed_renderer_def
      new_renderer_def)

lemma partial_on_frame:
  "call_render (nominal_frame t True) ((partial_renderer s)\<lparr>blur_enabled_last_frame_m := False\<rparr>) =
     (True,
      \<lparr>self = (partial_renderer t)\<lparr>blur_capture_pending_m := True\<rparr>,
        gpu = host_context (Some 50), calls = []\<rparr>)"
  by (simp add: call_render_ready resize_step_same edge_step_def reset_state_def
      capture_step_skip draw_step_def Let_def partial_renderer_def armed_renderer_def
      new_renderer_def)

lemma partial_capture_frame:
  "1 \<le> t - s \<Longrightarrow>
   self (snd (call_render (nominal_frame t True)
      ((partial_renderer s)\<lparr>blur_capture_pending_m := True\<rparr>))) =
   (partial_renderer s)\<lparr>background_captured_m := True, blur_processed_m := True\<rparr>"
  by (simp add: call_render_ready resize_step_same edge_step_same capture_step_def
      ensure_render_targets_noop capture_background_fst capture_background_self
      process_blur_self om_get_render_targets_def split_beta Let_def partial_renderer_def
      armed_renderer_def new_renderer_def del: not_None_eq)

lemma partial_capture_frame_calls:
  "1 \<le> t - s \<Longrightarrow>
   \<not> list_ex is_draw (calls (snd (call_render (nominal_frame t True)
      ((partial_renderer s)\<lparr>blur_capture_pending_m := True\<rparr>))))
   \<and> \<not> list_ex is_texture_alloc (calls (snd (call_render (nominal_frame t True)
      ((partial_renderer s)\<lparr>blur_capture_pending_m := True\<rparr>))))"
  by (simp add: call_render_ready resize_step_same edge_step_same capture_step_def
      ensure_render_targets_noop capture_background_fst capture_background_self
      process_blur_self om_get_render_targets_def split_beta Let_def partial_renderer_def
      armed_renderer_def new_renderer_def draw_step_def del: not_None_eq)

lemma partial_frame_self:
  "1 \<le> t - s \<Longrightarrow>
   self (snd (call_render
     ((nominal_frame t True)\<lparr>frame_env := (nominal_env t)\<lparr>create_temp_texture := None\<rparr>\<rparr>)
     (armed_renderer s))) = partial_renderer s"
  by (simp add: partial_frame)

lemma partial_off_frame_self:
  "self (snd (call_render (nominal_frame t False) (partial_renderer s))) =
     (partial_renderer s)\<lparr>blur_enabled_last_frame_m := False\<rparr>"
  by (simp add: partial_off_frame)

lemma partial_on_frame_self:
  "self (snd (call_render (nominal_frame t True)
      ((partial_renderer s)\<lparr>blur_enabled_last_frame_m := False\<rparr>))) =
     (partial_renderer t)\<lparr>blur_capture_pending_m := True\<rparr>"
  by (simp add: partial_on_frame)

lemma partial_shown_frame:
  "\<not> list_ex is_draw (calls (snd (call_render (nominal_frame t True)
      ((partial_renderer s)\<lparr>background_captured_m := True, blur_processed_m := True\<rparr>))))"
  by (simp add: call_render_ready resize_step_same edge_step_same capture_step_skip
      draw_step_def Let_def partial_renderer_def armed_renderer_def new_renderer_def)

lemma partial_set_run:
  "run new_renderer (take 2 partial_set_frames) = partial_renderer 0"
  "run new_renderer (take 4 partial_set_frames) =
     (partial_renderer 3)\<lparr>blur_capture_pending_m := True\<rparr>"
  "run new_renderer (take 5 partial_set_frames) =
     (partial_renderer 3)\<lparr>background_captured_m := True, blur_processed_m := True\<rparr>"
  by (simp_all add: partial_set_frames_def first_frame partial_frame_self
      partial_off_frame_self partial_on_frame_self partial_capture_frame)

text \<open>
  C6 fails on the code. The state is the one after a first frame with intent
  (\<open>armed_renderer\<close>: no texture held, size 200 by 100). When the platform creates the
  capture texture and its view but not the intermediate texture,
  \<open>ensure_render_targets\<close> returns false and keeps the capture texture and its view:
  nothing is released. A later call at the same size, on a platform that would create
  everything, finds \<open>background_capture_\<close> set, returns true and creates nothing: the
  intermediate and final textures are still missing. Through \<open>render\<close>
  (\<open>partial_set_frames\<close>): after the failed frame the capture texture is held and the
  intermediate one is not; after the intent is cleared and set again, the capture frame
  creates no texture, marks the blur as processed with no render target view and no
  result view to show, and neither that frame nor the next draws anything.
\<close>


theorem ensure_render_targets_keeps_partial_set:
  "ensure_render_targets ((nominal_env 1)\<lparr>create_temp_texture := None\<rparr>) 200 100
     \<lparr>self = armed_renderer 0, gpu = host_context (Some 50), calls = []\<rparr>
   = (False,
      \<lparr>self = (armed_renderer 0)\<lparr>background_capture_m := Some 14, background_srv_m := Some 15\<rparr>,
        gpu = host_context (Some 50),
        calls = [CreateTexture2D 200 100, CreateShaderResourceView, CreateTexture2D 200 100]\<rparr>)
   \<and> ensure_render_targets (nominal_env 2) 200 100
     \<lparr>self = (armed_renderer 0)\<lparr>background_capture_m := Some 14, background_srv_m := Some 15\<rparr>,
       gpu = host_context (Some 50), calls = []\<rparr>
   = (True,
      \<lparr>self = (armed_renderer 0)\<lparr>background_capture_m := Some 14, background_srv_m := Some 15\<rparr>,
        gpu = host_context (Some 50), calls = []\<rparr>)
   \<and> temp_texture_m ((armed_renderer 0)\<lparr>background_capture_m := Some 14,
                                          background_srv_m := Some 15\<rparr>) = None
   \<and> blur_srv_m ((armed_renderer 0)\<lparr>background_capture_m := Some 14,
                                      background_srv_m := Some 15\<rparr>) = None
   \<and> background_capture_m (run new_renderer (take 2 partial_set_frames)) = Some 14
   \<and> temp_texture_m (run new_renderer (take 2 partial_set_frames)) = None
   \<and> \<not> list_ex is_texture_alloc (calls (snd (outcome new_renderer partial_set_frames 4)))
   \<and> blur_processed_m (run new_renderer (take 5 partial_set_frames))
   \<and> temp_rtv_m (run new_renderer (take 5 partial_set_frames)) = None
   \<and> blur_srv_m (run new_renderer (take 5 partial_set_frames)) = None
   \<and> \<not> drew new_renderer partial_set_frames 4
   \<and> \<not> drew new_renderer partial_set_frames 5"
proof -
  have nth: "partial_set_frames ! 4 = nominal_frame 4 True"
    "partial_set_frames ! 5 = nominal_frame 5 True"
    by (simp_all add: partial_set_frames_def)
  have calls4: "\<not> list_ex is_draw (calls (snd (outcome new_renderer partial_set_frames 4)))
      \<and> \<not> list_ex is_texture_alloc (calls (snd (outcome new_renderer partial_set_frames 4)))"
    unfolding outcome_def nth partial_set_run by (rule partial_capture_frame_calls) simp
  have calls5: "\<not> list_ex is_draw (calls (snd (outcome new_renderer partial_set_frames 5)))"
    unfolding outcome_def nth partial_set_run by (rule partial_shown_frame)
  have fields: "background_capture_m (partial_renderer 0) = Some 14"
    "temp_texture_m (partial_renderer 0) = None"
    "temp_rtv_m (partial_renderer 3) = None" "blur_srv_m (partial_renderer 3) = None"
    by (simp_all add: partial_renderer_def armed_renderer_def new_renderer_def)
  have units: "ensure_render_targets ((nominal_env 1)\<lparr>create_temp_texture := None\<rparr>) 200 100
     \<lparr>self = armed_renderer 0, gpu = host_context (Some 50), calls = []\<rparr>
   = (False,
      \<lparr>self = (armed_renderer 0)\<lparr>background_capture_m := Some 14, background_srv_m := Some 15\<rparr>,
        gpu = host_context (Some 50),
        calls = [CreateTexture2D 200 100, CreateShaderResourceView, CreateTexture2D 200 100]\<rparr>)
   \<and> ensure_render_targets (nominal_env 2) 200 100
     \<lparr>self = (armed_renderer 0)\<lparr>background_capture_m := Some 14, background_srv_m := Some 15\<rparr>,
       gpu = host_context (Some 50), calls = []\<rparr>
   = (True,
      \<lparr>self = (armed_renderer 0)\<lparr>background_capture_m := Some 14, background_srv_m := Some 15\<rparr>,
        gpu = host_context (Some 50), calls = []\<rparr>)
   \<and> temp_texture_m ((armed_renderer 0)\<lparr>background_capture_m := Some 14,
                                          background_srv_m := Some 15\<rparr>) = None
   \<and> blur_srv_m ((armed_renderer 0)\<lparr>background_capture_m := Some 14,
                                      background_srv_m := Some 15\<rparr>) = None"
    by (simp add: ensure_render_targets_def create_texture_def cleanup_render_targets_def
        release_def Let_def armed_renderer_def new_renderer_def nominal_env_def)
  show ?thesis
    using calls4 calls5 units by (simp add: partial_set_run fields drew_def)
qed

section \<open>C7: a failed initialisation of the pipeline\<close>




section \<open>C8: the output of the blur shaders\<close>



section \<open>C9: the host bindings after the blur\<close>



section \<open>C10: processed implies captured\<close>

text \<open>
  C10. \<open>blur_processed_\<close> implies \<open>background_captured_\<close>. Without a capture,
  \<open>process_blur\<close> returns false and leaves the renderer, the context and the call log
  as they were; it sets \<open>blur_processed_\<close> only when \<open>background_captured_\<close> holds;
  \<open>reset_state\<close> clears both flags; the implication holds after every sequence of
  calls on a new renderer; and a call that issues the composite draw leaves both flags
  set, with the final texture's view present.
\<close>

theorem processed_implies_captured:
  "(\<not> background_captured_m (self w1) \<longrightarrow> process_blur env s w1 = (False, w1))
   \<and> (blur_processed_m (self (snd (process_blur env s w2))) \<and> \<not> blur_processed_m (self w2)
        \<longrightarrow> background_captured_m (self w2))
   \<and> \<not> background_captured_m (self (reset_state w3))
   \<and> \<not> blur_processed_m (self (reset_state w3))
   \<and> (blur_processed_m (run new_renderer fs) \<longrightarrow> background_captured_m (run new_renderer fs))
   \<and> (n < length fs \<and> drew new_renderer fs n \<longrightarrow>
        blur_processed_m (self (snd (outcome new_renderer fs n)))
        \<and> background_captured_m (self (snd (outcome new_renderer fs n)))
        \<and> blur_srv_m (self (snd (outcome new_renderer fs n))) \<noteq> None)"
proof -
  have guard: "\<not> background_captured_m (self w1) \<longrightarrow> process_blur env s w1 = (False, w1)"
    by (simp add: process_blur_guard)
  have sets: "blur_processed_m (self (snd (process_blur env s w2))) \<and> \<not> blur_processed_m (self w2)
        \<longrightarrow> background_captured_m (self w2)"
    by (simp add: process_blur_self split: if_splits)
  have seq: "blur_processed_m (run new_renderer fs) \<longrightarrow> background_captured_m (run new_renderer fs)"
    by (rule run_inv) simp
  have shown: "blur_processed_m (self (snd (outcome new_renderer fs n)))
        \<and> background_captured_m (self (snd (outcome new_renderer fs n)))
        \<and> blur_srv_m (self (snd (outcome new_renderer fs n))) \<noteq> None"
    if "drew new_renderer fs n"
  proof -
    let ?r = "run new_renderer (take n fs)"
    have inv: "blur_processed_m ?r \<longrightarrow> background_captured_m ?r"
      by (rule run_inv) simp
    from that have d: "list_ex is_draw (calls (snd (call_render (fs ! n) ?r)))"
      by (simp add: drew_def outcome_def)
    from call_render_draw [OF d] call_render_inv [OF inv, of "fs ! n"]
    show ?thesis by (simp add: outcome_def)
  qed
  from guard sets seq shown show ?thesis by simp
qed

theorem processed_implies_captured_witness:
  "process_blur (nominal_env 0) 1 \<lparr>self = new_renderer, gpu = host_context (Some 50), calls = []\<rparr>
     = (False, \<lparr>self = new_renderer, gpu = host_context (Some 50), calls = []\<rparr>)
   \<and> blur_processed_m (self (snd (process_blur (nominal_env 0) 1
         \<lparr>self = (armed_renderer 0)\<lparr>background_captured_m := True\<rparr>,
          gpu = host_context (Some 50), calls = []\<rparr>)))
   \<and> blur_processed_m (run new_renderer [nominal_frame 0 True, nominal_frame 1 True])
   \<and> background_captured_m (run new_renderer [nominal_frame 0 True, nominal_frame 1 True])
   \<and> drew new_renderer [nominal_frame 0 True, nominal_frame 1 True] 1
   \<and> background_captured_m
        (self (snd (outcome new_renderer [nominal_frame 0 True, nominal_frame 1 True] 1)))"
  using processed_implies_captured
    [where ?w1.0 = "\<lparr>self = new_renderer, gpu = host_context (Some 50), calls = []\<rparr>"
       and env = "nominal_env 0" and s = 1
       and ?w2.0 = "\<lparr>self = (armed_renderer 0)\<lparr>background_captured_m := True\<rparr>,
                      gpu = host_context (Some 50), calls = []\<rparr>"
       and fs = "[nominal_frame 0 True, nominal_frame 1 True]" and n = 1]
    two_frames_drew
  by (simp add: first_frame second_frame process_blur_self shown_renderer_def)

end
